theory Spec2Isabelle
  imports Complex_Main
begin

section \<open>Numbers, vectors and boxes\<close>

text \<open>
  The package computes with \<^verbatim>\<open>float64\<close>. The embedding reads every \<^verbatim>\<open>float64\<close> as a
  \<^typ>\<open>real\<close>: there is neither NaN nor an infinity, and arithmetic is exact everywhere
  but in the uniform scaling, whose three operations are rounded as the processor rounds
  them (section "Uniform scaling"). The comparisons, the case splits and the order of the
  checks are those of the source.
  Where \<^verbatim>\<open>float64\<close> divides by zero (an infinity or NaN) the division of \<^typ>\<open>real\<close> gives
  0; every statement below that depends on a quotient assumes its divisor non-zero.
\<close>

text \<open>\<^verbatim>\<open>r3.Vec\<close> (gonum): a struct of three coordinates.\<close>

record Vec3 =
  X :: real
  Y :: real
  Z :: real

text \<open>\<^verbatim>\<open>r2.Vec\<close> (gonum): a struct of two coordinates, fields \<^verbatim>\<open>X\<close> and \<^verbatim>\<open>Y\<close> in the source.\<close>

record Vec2 =
  X2 :: real
  Y2 :: real

text \<open>\<^verbatim>\<open>d3.Box\<close> and \<^verbatim>\<open>d2.Box\<close>: fields \<^verbatim>\<open>Min\<close> and \<^verbatim>\<open>Max\<close> in the source.\<close>

record Box3 =
  Min3 :: Vec3
  Max3 :: Vec3

record Box2 =
  Min2 :: Vec2
  Max2 :: Vec2

definition V3 :: "real \<Rightarrow> real \<Rightarrow> real \<Rightarrow> Vec3" where
  "V3 x y z = \<lparr>X = x, Y = y, Z = z\<rparr>"

definition V2 :: "real \<Rightarrow> real \<Rightarrow> Vec2" where
  "V2 x y = \<lparr>X2 = x, Y2 = y\<rparr>"

text \<open>
  The functions of gonum's \<^verbatim>\<open>r3\<close> and \<^verbatim>\<open>r2\<close> and of \<^verbatim>\<open>math\<close> that the file calls, by
  their documentation: sum, difference, scaling, dot product, Euclidean norm, the vector
  scaled to norm 1 (\<^verbatim>\<open>Unit\<close>, NaN on the zero vector in the library) and \<^verbatim>\<open>math.Hypot\<close>.
\<close>

definition r3_Add :: "Vec3 \<Rightarrow> Vec3 \<Rightarrow> Vec3" where
  "r3_Add p q = V3 (X p + X q) (Y p + Y q) (Z p + Z q)"

definition r3_Sub :: "Vec3 \<Rightarrow> Vec3 \<Rightarrow> Vec3" where
  "r3_Sub p q = V3 (X p - X q) (Y p - Y q) (Z p - Z q)"

definition r3_Scale :: "real \<Rightarrow> Vec3 \<Rightarrow> Vec3" where
  "r3_Scale f p = V3 (f * X p) (f * Y p) (f * Z p)"

definition r3_Dot :: "Vec3 \<Rightarrow> Vec3 \<Rightarrow> real" where
  "r3_Dot p q = X p * X q + Y p * Y q + Z p * Z q"

definition r3_Norm :: "Vec3 \<Rightarrow> real" where
  "r3_Norm p = sqrt (X p * X p + Y p * Y p + Z p * Z p)"

definition r3_Unit :: "Vec3 \<Rightarrow> Vec3" where
  "r3_Unit p = r3_Scale (1 / r3_Norm p) p"

definition r2_Sub :: "Vec2 \<Rightarrow> Vec2 \<Rightarrow> Vec2" where
  "r2_Sub p q = V2 (X2 p - X2 q) (Y2 p - Y2 q)"

definition r2_Scale :: "real \<Rightarrow> Vec2 \<Rightarrow> Vec2" where
  "r2_Scale f p = V2 (f * X2 p) (f * Y2 p)"

definition r2_Dot :: "Vec2 \<Rightarrow> Vec2 \<Rightarrow> real" where
  "r2_Dot p q = X2 p * X2 q + Y2 p * Y2 q"

definition r2_Norm :: "Vec2 \<Rightarrow> real" where
  "r2_Norm p = sqrt (X2 p * X2 p + Y2 p * Y2 p)"

definition r2_Unit :: "Vec2 \<Rightarrow> Vec2" where
  "r2_Unit p = r2_Scale (1 / r2_Norm p) p"

definition Hypot :: "real \<Rightarrow> real \<Rightarrow> real" where
  "Hypot a b = sqrt (a * a + b * b)"

text \<open>
  Modelled from the spec: the helpers \<^verbatim>\<open>AbsElem\<close>, \<^verbatim>\<open>Elem\<close>, \<^verbatim>\<open>Max\<close>, \<^verbatim>\<open>LTEZero\<close>, \<^verbatim>\<open>Clamp\<close>,
  \<^verbatim>\<open>MinElem\<close> and \<^verbatim>\<open>MaxElem\<close> of the package \<^verbatim>\<open>internal/d3\<close>, and the scalar \<^verbatim>\<open>Clamp\<close>,
  which the file calls and whose source is not part of it. The spec describes them as
  the "elementwise ops, min/max" of the vector type: the absolute value of each
  component, the vector with three equal components, the largest component ("the
  maximum of the three signed axis penetrations"), the test for a component \<open>\<le> 0\<close>
  behind the error \<^verbatim>\<open>size <= 0\<close>, the "per-axis clamp" of a point between two bounds, and
  the elementwise minimum and maximum of two vectors.
\<close>

definition d3_AbsElem :: "Vec3 \<Rightarrow> Vec3" where
  "d3_AbsElem p = V3 (abs (X p)) (abs (Y p)) (abs (Z p))"

definition d3_Elem :: "real \<Rightarrow> Vec3" where
  "d3_Elem r = V3 r r r"

definition d3_Max :: "Vec3 \<Rightarrow> real" where
  "d3_Max p = max (X p) (max (Y p) (Z p))"

definition d3_LTEZero :: "Vec3 \<Rightarrow> bool" where
  "d3_LTEZero p \<longleftrightarrow> X p \<le> 0 \<or> Y p \<le> 0 \<or> Z p \<le> 0"

definition Clamp :: "real \<Rightarrow> real \<Rightarrow> real \<Rightarrow> real" where
  "Clamp x a b = (if x < a then a else if x > b then b else x)"

definition d3_Clamp :: "Vec3 \<Rightarrow> Vec3 \<Rightarrow> Vec3 \<Rightarrow> Vec3" where
  "d3_Clamp p a b = V3 (Clamp (X p) (X a) (X b)) (Clamp (Y p) (Y a) (Y b)) (Clamp (Z p) (Z a) (Z b))"

definition d3_MinElem :: "Vec3 \<Rightarrow> Vec3 \<Rightarrow> Vec3" where
  "d3_MinElem p q = V3 (min (X p) (X q)) (min (Y p) (Y q)) (min (Z p) (Z q))"

definition d3_MaxElem :: "Vec3 \<Rightarrow> Vec3 \<Rightarrow> Vec3" where
  "d3_MaxElem p q = V3 (max (X p) (X q)) (max (Y p) (Y q)) (max (Z p) (Z q))"

text \<open>
  Modelled from the spec: the methods \<^verbatim>\<open>Extend\<close> and \<^verbatim>\<open>Translate\<close> of \<^verbatim>\<open>d3.Box\<close>, also of
  \<^verbatim>\<open>internal/d3\<close> and not part of the file. The spec gives the box its "union (\<^verbatim>\<open>Extend\<close>)"
  and its translation by a vector.
\<close>

definition Extend :: "Box3 \<Rightarrow> Box3 \<Rightarrow> Box3" where
  "Extend a b = \<lparr>Min3 = d3_MinElem (Min3 a) (Min3 b), Max3 = d3_MaxElem (Max3 a) (Max3 b)\<rparr>"

definition Translate :: "Box3 \<Rightarrow> Vec3 \<Rightarrow> Box3" where
  "Translate a v = \<lparr>Min3 = r3_Add (Min3 a) v, Max3 = r3_Add (Max3 a) v\<rparr>"

section \<open>The interface and its errors\<close>

text \<open>
  \<^verbatim>\<open>SDF3\<close> is an interface of two methods. A value of the interface is the pair of its
  methods bound to their receiver; the nil interface is \<^const>\<open>None\<close>.
\<close>

record SDF3 =
  Evaluate :: "Vec3 \<Rightarrow> real"
  BoundingBox :: Box3

text \<open>
  A constructor fails with \<^verbatim>\<open>ErrMsg(...)\<close>, the error the spec calls InvalidParameter.
  A method call on a nil interface panics (\<open>NilDereference\<close>), and so does the
  first element of an empty slice (\<open>IndexOutOfRange\<close>).
\<close>

datatype error = ErrMsg string | NilDereference | IndexOutOfRange

section \<open>Box\<close>

definition sdfBox3d :: "Vec3 \<Rightarrow> Vec3 \<Rightarrow> real" where
  "sdfBox3d p s =
     (let d = r3_Sub (d3_AbsElem p) s in
      if X d > 0 \<and> Y d > 0 \<and> Z d > 0 then r3_Norm d
      else if X d > 0 \<and> Y d > 0 then Hypot (X d) (Y d)
      else if X d > 0 \<and> Z d > 0 then Hypot (X d) (Z d)
      else if Y d > 0 \<and> Z d > 0 then Hypot (Y d) (Z d)
      else if X d > 0 then X d
      else if Y d > 0 then Y d
      else if Z d > 0 then Z d
      else d3_Max d)"

record BoxSDF3 =
  box_size :: Vec3
  box_round :: real
  box_bb :: Box3

definition BoxSDF3_Evaluate :: "BoxSDF3 \<Rightarrow> Vec3 \<Rightarrow> real" where
  "BoxSDF3_Evaluate s p = sdfBox3d p (box_size s) - box_round s"

definition BoxSDF3_BoundingBox :: "BoxSDF3 \<Rightarrow> Box3" where
  "BoxSDF3_BoundingBox s = box_bb s"

definition BoxSDF3_SDF3 :: "BoxSDF3 \<Rightarrow> SDF3" where
  "BoxSDF3_SDF3 s = \<lparr>Evaluate = BoxSDF3_Evaluate s, BoundingBox = BoxSDF3_BoundingBox s\<rparr>"

definition Box3D :: "Vec3 \<Rightarrow> real \<Rightarrow> error + SDF3 option" where
  "Box3D size0 rnd =
     (if d3_LTEZero size0 then Inl (ErrMsg ''size <= 0'')
      else if rnd < 0 then Inl (ErrMsg ''round < 0'')
      else let size1 = r3_Scale 0.5 size0;
               s = \<lparr>box_size = r3_Sub size1 (d3_Elem rnd),
                    box_round = rnd,
                    box_bb = \<lparr>Min3 = r3_Scale (-1) size1, Max3 = size1\<rparr>\<rparr>
           in Inr (Some (BoxSDF3_SDF3 s)))"

section \<open>Sphere\<close>

record SphereSDF3 =
  sphere_radius :: real
  sphere_bb :: Box3

definition SphereSDF3_Evaluate :: "SphereSDF3 \<Rightarrow> Vec3 \<Rightarrow> real" where
  "SphereSDF3_Evaluate s p = r3_Norm p - sphere_radius s"

definition SphereSDF3_BoundingBox :: "SphereSDF3 \<Rightarrow> Box3" where
  "SphereSDF3_BoundingBox s = sphere_bb s"

definition SphereSDF3_SDF3 :: "SphereSDF3 \<Rightarrow> SDF3" where
  "SphereSDF3_SDF3 s = \<lparr>Evaluate = SphereSDF3_Evaluate s, BoundingBox = SphereSDF3_BoundingBox s\<rparr>"

definition Sphere3D :: "real \<Rightarrow> error + SDF3 option" where
  "Sphere3D radius =
     (if radius \<le> 0 then Inl (ErrMsg ''radius <= 0'')
      else let d = V3 radius radius radius;
               s = \<lparr>sphere_radius = radius,
                    sphere_bb = \<lparr>Min3 = r3_Scale (-1) d, Max3 = d\<rparr>\<rparr>
           in Inr (Some (SphereSDF3_SDF3 s)))"

section \<open>Cylinder\<close>

text \<open>
  Modelled from the spec: \<^verbatim>\<open>sdfBox2d\<close>, defined in the 2D part of the package, outside this
  file. The spec has the cylinder "reduce to a 2D box-distance in (radial, axial)
  coordinates": the distance to the corner outside both extents, the larger signed
  penetration elsewhere.
\<close>

definition sdfBox2d :: "Vec2 \<Rightarrow> Vec2 \<Rightarrow> real" where
  "sdfBox2d p s =
     (let d = r2_Sub (V2 (abs (X2 p)) (abs (Y2 p))) s in
      if X2 d > 0 \<and> Y2 d > 0 then r2_Norm d else max (X2 d) (Y2 d))"

record CylinderSDF3 =
  cyl_height :: real
  cyl_radius :: real
  cyl_round :: real
  cyl_bb :: Box3

definition CylinderSDF3_Evaluate :: "CylinderSDF3 \<Rightarrow> Vec3 \<Rightarrow> real" where
  "CylinderSDF3_Evaluate s p =
     (let d = sdfBox2d (V2 (r2_Norm (V2 (X p) (Y p))) (Z p)) (V2 (cyl_radius s) (cyl_height s))
      in d - cyl_round s)"

definition CylinderSDF3_BoundingBox :: "CylinderSDF3 \<Rightarrow> Box3" where
  "CylinderSDF3_BoundingBox s = cyl_bb s"

definition CylinderSDF3_SDF3 :: "CylinderSDF3 \<Rightarrow> SDF3" where
  "CylinderSDF3_SDF3 s =
     \<lparr>Evaluate = CylinderSDF3_Evaluate s, BoundingBox = CylinderSDF3_BoundingBox s\<rparr>"

definition Cylinder3D :: "real \<Rightarrow> real \<Rightarrow> real \<Rightarrow> error + SDF3 option" where
  "Cylinder3D height radius rnd =
     (if radius \<le> 0 then Inl (ErrMsg ''radius <= 0'')
      else if rnd < 0 then Inl (ErrMsg ''round < 0'')
      else if rnd > radius then Inl (ErrMsg ''round > radius'')
      else if height < 2.0 * rnd then Inl (ErrMsg ''height < 2 * round'')
      else let d = V3 radius radius (height / 2);
               s = \<lparr>cyl_height = (height / 2) - rnd,
                    cyl_radius = radius - rnd,
                    cyl_round = rnd,
                    cyl_bb = \<lparr>Min3 = r3_Scale (-1) d, Max3 = d\<rparr>\<rparr>
           in Inr (Some (CylinderSDF3_SDF3 s)))"

definition Capsule3D :: "real \<Rightarrow> real \<Rightarrow> error + SDF3 option" where
  "Capsule3D height radius = Cylinder3D height radius radius"

section \<open>Truncated cone\<close>

record ConeSDF3 =
  cone_r0 :: real
  cone_r1 :: real
  cone_height :: real
  cone_round :: real
  cone_u :: Vec2
  cone_n :: Vec2
  cone_l :: real
  cone_bb :: Box3

definition ConeSDF3_Evaluate :: "ConeSDF3 \<Rightarrow> Vec3 \<Rightarrow> real" where
  "ConeSDF3_Evaluate s p =
     (let p2 = V2 (Hypot (X p) (Y p)) (Z p) in
      if Y2 p2 \<ge> cone_height s \<and> X2 p2 \<le> cone_r1 s
        then Y2 p2 - cone_height s - cone_round s
      else if Y2 p2 \<le> - cone_height s \<and> X2 p2 \<le> cone_r0 s
        then - Y2 p2 - cone_height s - cone_round s
      else let v = r2_Sub p2 (V2 (cone_r0 s) (- cone_height s));
               dSlope = r2_Dot v (cone_n s) in
      if dSlope < 0 \<and> abs (Y2 p2) < cone_height s
        then - min (- dSlope) (cone_height s - abs (Y2 p2)) - cone_round s
      else let t = r2_Dot v (cone_u s) in
      if t \<ge> 0 \<and> t \<le> cone_l s then dSlope - cone_round s
      else if t < 0 then r2_Norm v - cone_round s
      else r2_Norm (r2_Sub p2 (V2 (cone_r1 s) (cone_height s))) - cone_round s)"

definition ConeSDF3_BoundingBox :: "ConeSDF3 \<Rightarrow> Box3" where
  "ConeSDF3_BoundingBox s = cone_bb s"

definition ConeSDF3_SDF3 :: "ConeSDF3 \<Rightarrow> SDF3" where
  "ConeSDF3_SDF3 s = \<lparr>Evaluate = ConeSDF3_Evaluate s, BoundingBox = ConeSDF3_BoundingBox s\<rparr>"

definition Cone3D :: "real \<Rightarrow> real \<Rightarrow> real \<Rightarrow> real \<Rightarrow> error + SDF3 option" where
  "Cone3D height r0 r1 rnd =
     (if height \<le> 0 then Inl (ErrMsg ''height <= 0'')
      else if rnd < 0 then Inl (ErrMsg ''round < 0'')
      else if height < 2.0 * rnd then Inl (ErrMsg ''height < 2 * round'')
      else let h = (height / 2) - rnd;
               u = r2_Unit (r2_Sub (V2 r1 (height / 2)) (V2 r0 (- height / 2)));
               n = V2 (Y2 u) (- X2 u);
               ofs = rnd / X2 n;
               r0' = r0 - (1 + Y2 n) * ofs;
               r1' = r1 - (1 - Y2 n) * ofs;
               l = r2_Norm (r2_Sub (V2 r1' h) (V2 r0' (- h)));
               r = max (r0' + rnd) (r1' + rnd);
               s = \<lparr>cone_r0 = r0', cone_r1 = r1', cone_height = h, cone_round = rnd,
                    cone_u = u, cone_n = n, cone_l = l,
                    cone_bb = \<lparr>Min3 = V3 (- r) (- r) (- height / 2),
                               Max3 = V3 r r (height / 2)\<rparr>\<rparr>
           in Inr (Some (ConeSDF3_SDF3 s)))"

section \<open>The 4x4 matrix\<close>

text \<open>
  Modelled from the spec: the type \<^verbatim>\<open>m44\<close> and its functions \<^verbatim>\<open>MulPosition\<close>, \<^verbatim>\<open>MulBox\<close>,
  \<^verbatim>\<open>Inverse\<close> and \<^verbatim>\<open>Scale3d\<close>, which the package defines outside this file. The spec
  has a 4x4 affine transform with "composition, inverse, application to points and to
  boxes (via vertex enumeration + min/max)": a point is mapped by the upper three rows,
  a box by "mapping all 8 corner vertices of the child's box through the forward matrix
  and taking their min/max", and the inverse is the matrix inverse, written here as the
  transposed cofactors over the determinant (for a zero determinant \<^verbatim>\<open>float64\<close> gives
  infinities or NaN, the model the zero matrix). \<^verbatim>\<open>Scale3d\<close> is the diagonal matrix of
  a scaling vector.
\<close>

record m44 =
  x00 :: real  x01 :: real  x02 :: real  x03 :: real
  x10 :: real  x11 :: real  x12 :: real  x13 :: real
  x20 :: real  x21 :: real  x22 :: real  x23 :: real
  x30 :: real  x31 :: real  x32 :: real  x33 :: real

definition MulPosition :: "m44 \<Rightarrow> Vec3 \<Rightarrow> Vec3" where
  "MulPosition a b =
     V3 (x00 a * X b + x01 a * Y b + x02 a * Z b + x03 a)
        (x10 a * X b + x11 a * Y b + x12 a * Z b + x13 a)
        (x20 a * X b + x21 a * Y b + x22 a * Z b + x23 a)"

definition Vertices :: "Box3 \<Rightarrow> Vec3 list" where
  "Vertices b =
     [V3 (X (Min3 b)) (Y (Min3 b)) (Z (Min3 b)),
      V3 (X (Min3 b)) (Y (Min3 b)) (Z (Max3 b)),
      V3 (X (Min3 b)) (Y (Max3 b)) (Z (Min3 b)),
      V3 (X (Min3 b)) (Y (Max3 b)) (Z (Max3 b)),
      V3 (X (Max3 b)) (Y (Min3 b)) (Z (Min3 b)),
      V3 (X (Max3 b)) (Y (Min3 b)) (Z (Max3 b)),
      V3 (X (Max3 b)) (Y (Max3 b)) (Z (Min3 b)),
      V3 (X (Max3 b)) (Y (Max3 b)) (Z (Max3 b))]"

text \<open>The elementwise minimum and maximum of a list of points, from a first point on.\<close>

definition d3_Set_Min :: "Vec3 \<Rightarrow> Vec3 list \<Rightarrow> Vec3" where
  "d3_Set_Min v vs = foldl d3_MinElem v vs"

definition d3_Set_Max :: "Vec3 \<Rightarrow> Vec3 list \<Rightarrow> Vec3" where
  "d3_Set_Max v vs = foldl d3_MaxElem v vs"

definition MulBox :: "m44 \<Rightarrow> Box3 \<Rightarrow> Box3" where
  "MulBox a b =
     (let vs = map (MulPosition a) (Vertices b);
          v0 = MulPosition a (Min3 b)
      in \<lparr>Min3 = d3_Set_Min v0 vs, Max3 = d3_Set_Max v0 vs\<rparr>)"

definition det3 :: "real \<Rightarrow> real \<Rightarrow> real \<Rightarrow> real \<Rightarrow> real \<Rightarrow> real \<Rightarrow> real \<Rightarrow> real \<Rightarrow> real \<Rightarrow> real" where
  "det3 a b c d e f g h i = a * (e * i - f * h) - b * (d * i - f * g) + c * (d * h - e * g)"

definition Determinant :: "m44 \<Rightarrow> real" where
  "Determinant a =
       x00 a * det3 (x11 a) (x12 a) (x13 a) (x21 a) (x22 a) (x23 a) (x31 a) (x32 a) (x33 a)
     - x01 a * det3 (x10 a) (x12 a) (x13 a) (x20 a) (x22 a) (x23 a) (x30 a) (x32 a) (x33 a)
     + x02 a * det3 (x10 a) (x11 a) (x13 a) (x20 a) (x21 a) (x23 a) (x30 a) (x31 a) (x33 a)
     - x03 a * det3 (x10 a) (x11 a) (x12 a) (x20 a) (x21 a) (x22 a) (x30 a) (x31 a) (x32 a)"

definition Inverse :: "m44 \<Rightarrow> m44" where
  "Inverse a =
     (let d = Determinant a in
      \<lparr>x00 =   det3 (x11 a) (x12 a) (x13 a) (x21 a) (x22 a) (x23 a) (x31 a) (x32 a) (x33 a) / d,
       x01 = - det3 (x01 a) (x02 a) (x03 a) (x21 a) (x22 a) (x23 a) (x31 a) (x32 a) (x33 a) / d,
       x02 =   det3 (x01 a) (x02 a) (x03 a) (x11 a) (x12 a) (x13 a) (x31 a) (x32 a) (x33 a) / d,
       x03 = - det3 (x01 a) (x02 a) (x03 a) (x11 a) (x12 a) (x13 a) (x21 a) (x22 a) (x23 a) / d,
       x10 = - det3 (x10 a) (x12 a) (x13 a) (x20 a) (x22 a) (x23 a) (x30 a) (x32 a) (x33 a) / d,
       x11 =   det3 (x00 a) (x02 a) (x03 a) (x20 a) (x22 a) (x23 a) (x30 a) (x32 a) (x33 a) / d,
       x12 = - det3 (x00 a) (x02 a) (x03 a) (x10 a) (x12 a) (x13 a) (x30 a) (x32 a) (x33 a) / d,
       x13 =   det3 (x00 a) (x02 a) (x03 a) (x10 a) (x12 a) (x13 a) (x20 a) (x22 a) (x23 a) / d,
       x20 =   det3 (x10 a) (x11 a) (x13 a) (x20 a) (x21 a) (x23 a) (x30 a) (x31 a) (x33 a) / d,
       x21 = - det3 (x00 a) (x01 a) (x03 a) (x20 a) (x21 a) (x23 a) (x30 a) (x31 a) (x33 a) / d,
       x22 =   det3 (x00 a) (x01 a) (x03 a) (x10 a) (x11 a) (x13 a) (x30 a) (x31 a) (x33 a) / d,
       x23 = - det3 (x00 a) (x01 a) (x03 a) (x10 a) (x11 a) (x13 a) (x20 a) (x21 a) (x23 a) / d,
       x30 = - det3 (x10 a) (x11 a) (x12 a) (x20 a) (x21 a) (x22 a) (x30 a) (x31 a) (x32 a) / d,
       x31 =   det3 (x00 a) (x01 a) (x02 a) (x20 a) (x21 a) (x22 a) (x30 a) (x31 a) (x32 a) / d,
       x32 = - det3 (x00 a) (x01 a) (x02 a) (x10 a) (x11 a) (x12 a) (x30 a) (x31 a) (x32 a) / d,
       x33 =   det3 (x00 a) (x01 a) (x02 a) (x10 a) (x11 a) (x12 a) (x20 a) (x21 a) (x22 a) / d\<rparr>)"

definition Scale3d :: "Vec3 \<Rightarrow> m44" where
  "Scale3d v =
     \<lparr>x00 = X v, x01 = 0, x02 = 0, x03 = 0,
      x10 = 0, x11 = Y v, x12 = 0, x13 = 0,
      x20 = 0, x21 = 0, x22 = Z v, x23 = 0,
      x30 = 0, x31 = 0, x32 = 0, x33 = 1\<rparr>"

text \<open>A matrix is affine when its last row is \<open>(0, 0, 0, 1)\<close>.\<close>

definition affine :: "m44 \<Rightarrow> bool" where
  "affine a \<longleftrightarrow> x30 a = 0 \<and> x31 a = 0 \<and> x32 a = 0 \<and> x33 a = 1"

section \<open>Transform\<close>

text \<open>
  The child of a combinator is stored as an interface value. The constructors below call
  a method of the child while they build the node, so a stored child is never nil: the
  fields have the type \<^typ>\<open>SDF3\<close>, and the nil argument is the panic of the constructor.
\<close>

record TransformSDF3 =
  tr_sdf :: SDF3
  tr_matrix :: m44
  tr_inverse :: m44
  tr_bb :: Box3

definition TransformSDF3_Evaluate :: "TransformSDF3 \<Rightarrow> Vec3 \<Rightarrow> real" where
  "TransformSDF3_Evaluate s p = Evaluate (tr_sdf s) (MulPosition (tr_inverse s) p)"

definition TransformSDF3_BoundingBox :: "TransformSDF3 \<Rightarrow> Box3" where
  "TransformSDF3_BoundingBox s = tr_bb s"

definition TransformSDF3_SDF3 :: "TransformSDF3 \<Rightarrow> SDF3" where
  "TransformSDF3_SDF3 s =
     \<lparr>Evaluate = TransformSDF3_Evaluate s, BoundingBox = TransformSDF3_BoundingBox s\<rparr>"

definition Transform3D :: "SDF3 option \<Rightarrow> m44 \<Rightarrow> error + SDF3 option" where
  "Transform3D sdf matrix =
     (case sdf of
        None \<Rightarrow> Inl NilDereference
      | Some c \<Rightarrow>
          Inr (Some (TransformSDF3_SDF3
            \<lparr>tr_sdf = c, tr_matrix = matrix, tr_inverse = Inverse matrix,
             tr_bb = MulBox matrix (BoundingBox c)\<rparr>)))"

section \<open>Uniform scaling\<close>

text \<open>
  The scaling multiplies the point by a reciprocal \<open>1 / k\<close> that is computed once and
  stored, where the spec divides the point by \<open>k\<close>. In \<^verbatim>\<open>float64\<close> the two differ by the
  rounding of the reciprocal, so the operations of this section are modelled with their
  rounding: \<open>fl64\<close> is the rounding of a real to the nearest \<^verbatim>\<open>float64\<close>, ties to the even
  significand (IEEE 754, binary64: 53 bits of significand, least normal exponent
  \<open>-1022\<close>, subnormals in steps of \<^verbatim>\<open>2^-1074\<close>). The exponent is not bounded above: a result
  beyond the largest \<^verbatim>\<open>float64\<close> is an infinity in the program and has no counterpart here.
\<close>

definition pow2 :: "int \<Rightarrow> real" where
  "pow2 e = (if e \<ge> 0 then 2 ^ nat e else 1 / 2 ^ nat (- e))"

definition round_to_even :: "real \<Rightarrow> int" where
  "round_to_even y =
     (let f = \<lfloor>y\<rfloor>; r = y - of_int f in
      if r < 1 / 2 then f
      else if r > 1 / 2 then f + 1
      else if even f then f else f + 1)"

definition fl64 :: "real \<Rightarrow> real" where
  "fl64 x =
     (if x = 0 then 0
      else let e = max \<lfloor>log 2 (abs x)\<rfloor> (- 1022);
               q = pow2 (e - 52)
           in of_int (round_to_even (x / q)) * q)"

text \<open>\<^verbatim>\<open>r3.Scale(f, p)\<close> with its three products rounded.\<close>

definition r3_Scale_f64 :: "real \<Rightarrow> Vec3 \<Rightarrow> Vec3" where
  "r3_Scale_f64 f p = V3 (fl64 (f * X p)) (fl64 (f * Y p)) (fl64 (f * Z p))"

record ScaleUniformSDF3 =
  su_sdf :: SDF3
  su_k :: real
  su_invK :: real
  su_bb :: Box3

definition ScaleUniformSDF3_Evaluate :: "ScaleUniformSDF3 \<Rightarrow> Vec3 \<Rightarrow> real" where
  "ScaleUniformSDF3_Evaluate s p =
     (let q = r3_Scale_f64 (su_invK s) p in fl64 (Evaluate (su_sdf s) q * su_k s))"

definition ScaleUniformSDF3_BoundingBox :: "ScaleUniformSDF3 \<Rightarrow> Box3" where
  "ScaleUniformSDF3_BoundingBox s = su_bb s"

definition ScaleUniformSDF3_SDF3 :: "ScaleUniformSDF3 \<Rightarrow> SDF3" where
  "ScaleUniformSDF3_SDF3 s =
     \<lparr>Evaluate = ScaleUniformSDF3_Evaluate s, BoundingBox = ScaleUniformSDF3_BoundingBox s\<rparr>"

definition ScaleUniform3D :: "SDF3 option \<Rightarrow> real \<Rightarrow> error + SDF3 option" where
  "ScaleUniform3D sdf k =
     (let m = Scale3d (V3 k k k) in
      case sdf of
        None \<Rightarrow> Inl NilDereference
      | Some c \<Rightarrow>
          Inr (Some (ScaleUniformSDF3_SDF3
            \<lparr>su_sdf = c, su_k = k, su_invK = fl64 (1.0 / k),
             su_bb = MulBox m (BoundingBox c)\<rparr>)))"

section \<open>Union\<close>

record UnionSDF3 =
  un_sdf :: "SDF3 list"
  un_min :: "real \<Rightarrow> real \<Rightarrow> real"
  un_bb :: Box3

text \<open>The loop of \<^verbatim>\<open>Evaluate\<close>: \<open>i\<close> is the index, \<open>d\<close> the distance so far.\<close>

fun union_loop :: "(real \<Rightarrow> real \<Rightarrow> real) \<Rightarrow> Vec3 \<Rightarrow> nat \<Rightarrow> real \<Rightarrow> SDF3 list \<Rightarrow> real" where
  "union_loop mn p i d [] = d"
| "union_loop mn p i d (x # xs) =
     union_loop mn p (i + 1) (if i = 0 then Evaluate x p else mn d (Evaluate x p)) xs"

definition UnionSDF3_Evaluate :: "UnionSDF3 \<Rightarrow> Vec3 \<Rightarrow> real" where
  "UnionSDF3_Evaluate s p = union_loop (un_min s) p 0 0 (un_sdf s)"

definition UnionSDF3_BoundingBox :: "UnionSDF3 \<Rightarrow> Box3" where
  "UnionSDF3_BoundingBox s = un_bb s"

definition UnionSDF3_SDF3 :: "UnionSDF3 \<Rightarrow> SDF3" where
  "UnionSDF3_SDF3 s = \<lparr>Evaluate = UnionSDF3_Evaluate s, BoundingBox = UnionSDF3_BoundingBox s\<rparr>"

text \<open>The first loop of \<^verbatim>\<open>Union3D\<close>: the arguments without the nils, in their order.\<close>

fun strip_nils :: "SDF3 option list \<Rightarrow> SDF3 list" where
  "strip_nils [] = []"
| "strip_nils (None # xs) = strip_nils xs"
| "strip_nils (Some x # xs) = x # strip_nils xs"

definition Union3D :: "SDF3 option list \<Rightarrow> SDF3 option" where
  "Union3D sdf =
     (if length sdf = 0 then None
      else case strip_nils sdf of
        [] \<Rightarrow> None
      | [x] \<Rightarrow> Some x
      | x # y # ys \<Rightarrow>
          (let bb = foldl (\<lambda>bb c. Extend bb (BoundingBox c)) (BoundingBox x) (x # y # ys)
           in Some (UnionSDF3_SDF3 \<lparr>un_sdf = x # y # ys, un_min = min, un_bb = bb\<rparr>)))"

section \<open>Difference\<close>

record DifferenceSDF3 =
  df_s0 :: SDF3
  df_s1 :: SDF3
  df_max :: "real \<Rightarrow> real \<Rightarrow> real"
  df_bb :: Box3

definition DifferenceSDF3_Evaluate :: "DifferenceSDF3 \<Rightarrow> Vec3 \<Rightarrow> real" where
  "DifferenceSDF3_Evaluate s p = df_max s (Evaluate (df_s0 s) p) (- Evaluate (df_s1 s) p)"

definition DifferenceSDF3_BoundingBox :: "DifferenceSDF3 \<Rightarrow> Box3" where
  "DifferenceSDF3_BoundingBox s = df_bb s"

definition DifferenceSDF3_SDF3 :: "DifferenceSDF3 \<Rightarrow> SDF3" where
  "DifferenceSDF3_SDF3 s =
     \<lparr>Evaluate = DifferenceSDF3_Evaluate s, BoundingBox = DifferenceSDF3_BoundingBox s\<rparr>"

definition Difference3D :: "SDF3 option \<Rightarrow> SDF3 option \<Rightarrow> SDF3 option" where
  "Difference3D s0 s1 =
     (case s1 of
        None \<Rightarrow> s0
      | Some b \<Rightarrow>
          (case s0 of
             None \<Rightarrow> None
           | Some a \<Rightarrow>
               Some (DifferenceSDF3_SDF3
                 \<lparr>df_s0 = a, df_s1 = b, df_max = max, df_bb = BoundingBox a\<rparr>)))"

section \<open>Elongation\<close>

record ElongateSDF3 =
  el_sdf :: SDF3
  el_hp :: Vec3
  el_hn :: Vec3
  el_bb :: Box3

definition ElongateSDF3_Evaluate :: "ElongateSDF3 \<Rightarrow> Vec3 \<Rightarrow> real" where
  "ElongateSDF3_Evaluate s p =
     (let q = r3_Sub p (d3_Clamp p (el_hn s) (el_hp s)) in Evaluate (el_sdf s) q)"

definition ElongateSDF3_BoundingBox :: "ElongateSDF3 \<Rightarrow> Box3" where
  "ElongateSDF3_BoundingBox s = el_bb s"

definition ElongateSDF3_SDF3 :: "ElongateSDF3 \<Rightarrow> SDF3" where
  "ElongateSDF3_SDF3 s =
     \<lparr>Evaluate = ElongateSDF3_Evaluate s, BoundingBox = ElongateSDF3_BoundingBox s\<rparr>"

definition Elongate3D :: "SDF3 option \<Rightarrow> Vec3 \<Rightarrow> error + SDF3 option" where
  "Elongate3D sdf h0 =
     (let h = d3_AbsElem h0;
          hp = r3_Scale 0.5 h;
          hn = r3_Scale (-0.5) h
      in case sdf of
        None \<Rightarrow> Inl NilDereference
      | Some c \<Rightarrow>
          (let bb = BoundingBox c;
               bb0 = Translate bb hp;
               bb1 = Translate bb hn
           in Inr (Some (ElongateSDF3_SDF3
                \<lparr>el_sdf = c, el_hp = hp, el_hn = hn, el_bb = Extend bb0 bb1\<rparr>))))"

section \<open>Intersection\<close>

record IntersectionSDF3 =
  is_s0 :: SDF3
  is_s1 :: SDF3
  is_max :: "real \<Rightarrow> real \<Rightarrow> real"
  is_bb :: Box3

definition IntersectionSDF3_Evaluate :: "IntersectionSDF3 \<Rightarrow> Vec3 \<Rightarrow> real" where
  "IntersectionSDF3_Evaluate s p = is_max s (Evaluate (is_s0 s) p) (Evaluate (is_s1 s) p)"

definition IntersectionSDF3_BoundingBox :: "IntersectionSDF3 \<Rightarrow> Box3" where
  "IntersectionSDF3_BoundingBox s = is_bb s"

definition IntersectionSDF3_SDF3 :: "IntersectionSDF3 \<Rightarrow> SDF3" where
  "IntersectionSDF3_SDF3 s =
     \<lparr>Evaluate = IntersectionSDF3_Evaluate s, BoundingBox = IntersectionSDF3_BoundingBox s\<rparr>"

definition Intersect3D :: "SDF3 option \<Rightarrow> SDF3 option \<Rightarrow> SDF3 option" where
  "Intersect3D s0 s1 =
     (case (s0, s1) of
        (Some a, Some b) \<Rightarrow>
          Some (IntersectionSDF3_SDF3
            \<lparr>is_s0 = a, is_s1 = b, is_max = max, is_bb = BoundingBox a\<rparr>)
      | _ \<Rightarrow> None)"

section \<open>Planar cut\<close>

record CutSDF3 =
  cut_sdf :: SDF3
  cut_a :: Vec3
  cut_n :: Vec3
  cut_bb :: Box3

definition CutSDF3_Evaluate :: "CutSDF3 \<Rightarrow> Vec3 \<Rightarrow> real" where
  "CutSDF3_Evaluate s p = max (r3_Dot (r3_Sub p (cut_a s)) (cut_n s)) (Evaluate (cut_sdf s) p)"

definition CutSDF3_BoundingBox :: "CutSDF3 \<Rightarrow> Box3" where
  "CutSDF3_BoundingBox s = cut_bb s"

definition CutSDF3_SDF3 :: "CutSDF3 \<Rightarrow> SDF3" where
  "CutSDF3_SDF3 s = \<lparr>Evaluate = CutSDF3_Evaluate s, BoundingBox = CutSDF3_BoundingBox s\<rparr>"

definition Cut3D :: "SDF3 option \<Rightarrow> Vec3 \<Rightarrow> Vec3 \<Rightarrow> error + SDF3 option" where
  "Cut3D sdf a n =
     (let n' = r3_Scale (-1) (r3_Unit n) in
      case sdf of
        None \<Rightarrow> Inl NilDereference
      | Some c \<Rightarrow>
          Inr (Some (CutSDF3_SDF3 \<lparr>cut_sdf = c, cut_a = a, cut_n = n', cut_bb = BoundingBox c\<rparr>)))"

section \<open>Solid of revolution\<close>

text \<open>
  \<^verbatim>\<open>SDF2\<close> is the interface of the 2D profiles, with the same two methods in two
  dimensions. The package defines it outside this file; the constructors here only call
  the two methods.
\<close>

record SDF2 =
  Evaluate2 :: "Vec2 \<Rightarrow> real"
  BoundingBox2 :: Box2

text \<open>
  Modelled from the spec: the constants \<^verbatim>\<open>pi\<close> and \<^verbatim>\<open>tau\<close> of the package ("global
  numeric constants"), the full turn being \<open>2\<pi>\<close>, and the minimum and maximum of a
  \<^verbatim>\<open>d2.Set\<close>, the elementwise extremes of a list of 2D points, which start from the first
  point of the list.
\<close>

definition tau :: real where
  "tau = 2 * pi"

definition d2_MinElem :: "Vec2 \<Rightarrow> Vec2 \<Rightarrow> Vec2" where
  "d2_MinElem p q = V2 (min (X2 p) (X2 q)) (min (Y2 p) (Y2 q))"

definition d2_MaxElem :: "Vec2 \<Rightarrow> Vec2 \<Rightarrow> Vec2" where
  "d2_MaxElem p q = V2 (max (X2 p) (X2 q)) (max (Y2 p) (Y2 q))"

fun d2_Set_Min :: "Vec2 list \<Rightarrow> Vec2 option" where
  "d2_Set_Min [] = None"
| "d2_Set_Min (v # vs) = Some (foldl d2_MinElem v (v # vs))"

fun d2_Set_Max :: "Vec2 list \<Rightarrow> Vec2 option" where
  "d2_Set_Max [] = None"
| "d2_Set_Max (v # vs) = Some (foldl d2_MaxElem v (v # vs))"

text \<open>
  \<^verbatim>\<open>math.Mod(x, y)\<close>: the remainder of \<open>x / y\<close> with the sign of \<open>x\<close> and a magnitude
  below that of \<open>y\<close>. (For \<open>y = 0\<close> the library returns NaN; the file divides by
  \<open>tau\<close> only.)
\<close>

definition math_Mod :: "real \<Rightarrow> real \<Rightarrow> real" where
  "math_Mod x y = sgn x * (abs x - abs y * of_int \<lfloor>abs x / abs y\<rfloor>)"

record SorSDF3 =
  sor_sdf :: SDF2
  sor_theta :: real
  sor_norm :: Vec2
  sor_bb :: Box3

definition SorSDF3_Evaluate :: "SorSDF3 \<Rightarrow> Vec3 \<Rightarrow> real" where
  "SorSDF3_Evaluate s p =
     (let x = sqrt (X p * X p + Y p * Y p);
          a = Evaluate2 (sor_sdf s) (V2 x (Z p));
          b = (if sor_theta s \<noteq> 0
               then (let d = r2_Dot (sor_norm s) (V2 (X p) (Y p)) in
                     if sor_theta s < pi then max (- Y p) d else min (- Y p) d)
               else a)
      in max a b)"

definition SorSDF3_BoundingBox :: "SorSDF3 \<Rightarrow> Box3" where
  "SorSDF3_BoundingBox s = sor_bb s"

definition SorSDF3_SDF3 :: "SorSDF3 \<Rightarrow> SDF3" where
  "SorSDF3_SDF3 s = \<lparr>Evaluate = SorSDF3_Evaluate s, BoundingBox = SorSDF3_BoundingBox s\<rparr>"

definition RevolveTheta3D :: "SDF2 option \<Rightarrow> real \<Rightarrow> error + SDF3 option" where
  "RevolveTheta3D sdf theta =
     (case sdf of
        None \<Rightarrow> Inr None
      | Some c \<Rightarrow>
          if theta < 0 then Inl (ErrMsg ''theta < 0'')
          else
            let theta' = math_Mod (abs theta) tau;
                sn = sin theta';
                cs = cos theta';
                norm = V2 (- sn) cs;
                vset = (if theta' = 0 then [V2 1 1, V2 (-1) (-1)]
                        else [V2 0 0, V2 1 0, V2 cs sn]
                             @ (if theta' > 0.5 * pi then [V2 0 1] else [])
                             @ (if theta' > pi then [V2 (-1) 0] else [])
                             @ (if theta' > 1.5 * pi then [V2 0 (-1)] else []));
                bb = BoundingBox2 c;
                l = max (abs (X2 (Min2 bb))) (abs (X2 (Max2 bb)))
            in case (d2_Set_Min vset, d2_Set_Max vset) of
                 (Some mn, Some mx) \<Rightarrow>
                   (let vmin = r2_Scale l mn;
                        vmax = r2_Scale l mx
                    in Inr (Some (SorSDF3_SDF3
                         \<lparr>sor_sdf = c, sor_theta = theta', sor_norm = norm,
                          sor_bb = \<lparr>Min3 = V3 (X2 vmin) (Y2 vmin) (Y2 (Min2 bb)),
                                    Max3 = V3 (X2 vmax) (Y2 vmax) (Y2 (Max2 bb))\<rparr>\<rparr>)))
               | _ \<Rightarrow> Inl IndexOutOfRange)"

definition Revolve3D :: "SDF2 option \<Rightarrow> error + SDF3 option" where
  "Revolve3D sdf = RevolveTheta3D sdf 0"

section \<open>Transforming there and back\<close>

text \<open>
  \<^verbatim>\<open>Transform3D(sdf, M)\<close> followed by \<^verbatim>\<open>Transform3D\<close> of the result with \<^verbatim>\<open>M.Inverse()\<close>; a
  panic of the first call is the panic of the composition.
\<close>

definition Transform_round_trip :: "SDF3 option \<Rightarrow> m44 \<Rightarrow> error + SDF3 option" where
  "Transform_round_trip sdf M =
     (case Transform3D sdf M of
        Inl e \<Rightarrow> Inl e
      | Inr t \<Rightarrow> Transform3D t (Inverse M))"

text \<open>
  The bounding box of the node a constructor returned, if it returned one, and its
  distance at a point.
\<close>

definition result_box :: "error + SDF3 option \<Rightarrow> Box3 option" where
  "result_box r = (case r of Inr (Some s) \<Rightarrow> Some (BoundingBox s) | _ \<Rightarrow> None)"

definition result_eval :: "error + SDF3 option \<Rightarrow> Vec3 \<Rightarrow> real option" where
  "result_eval r p = (case r of Inr (Some s) \<Rightarrow> Some (Evaluate s p) | _ \<Rightarrow> None)"

text \<open>
  A box as a region: the points between its two corners, the boxes whose two corners lie
  in another box, and the boxes whose \<^verbatim>\<open>Min\<close> is below their \<^verbatim>\<open>Max\<close> on every axis (the
  invariant the spec gives to every box returned to a caller).
\<close>

definition Contains :: "Box3 \<Rightarrow> Vec3 \<Rightarrow> bool" where
  "Contains b v \<longleftrightarrow>
     X (Min3 b) \<le> X v \<and> X v \<le> X (Max3 b) \<and>
     Y (Min3 b) \<le> Y v \<and> Y v \<le> Y (Max3 b) \<and>
     Z (Min3 b) \<le> Z v \<and> Z v \<le> Z (Max3 b)"

definition box_within :: "Box3 \<Rightarrow> Box3 \<Rightarrow> bool" where
  "box_within b c \<longleftrightarrow> Contains c (Min3 b) \<and> Contains c (Max3 b)"

definition well_formed :: "Box3 \<Rightarrow> bool" where
  "well_formed b \<longleftrightarrow>
     X (Min3 b) \<le> X (Max3 b) \<and> Y (Min3 b) \<le> Y (Max3 b) \<and> Z (Min3 b) \<le> Z (Max3 b)"

text \<open>
  The numerators of the three coordinates of \<open>MulPosition (Inverse a) p\<close>, over the common
  denominator \<open>Determinant a\<close>.
\<close>

definition inv_num0 :: "m44 \<Rightarrow> Vec3 \<Rightarrow> real" where
  "inv_num0 a p =
       det3 (x11 a) (x12 a) (x13 a) (x21 a) (x22 a) (x23 a) (x31 a) (x32 a) (x33 a) * X p
     - det3 (x01 a) (x02 a) (x03 a) (x21 a) (x22 a) (x23 a) (x31 a) (x32 a) (x33 a) * Y p
     + det3 (x01 a) (x02 a) (x03 a) (x11 a) (x12 a) (x13 a) (x31 a) (x32 a) (x33 a) * Z p
     - det3 (x01 a) (x02 a) (x03 a) (x11 a) (x12 a) (x13 a) (x21 a) (x22 a) (x23 a)"

definition inv_num1 :: "m44 \<Rightarrow> Vec3 \<Rightarrow> real" where
  "inv_num1 a p =
     - det3 (x10 a) (x12 a) (x13 a) (x20 a) (x22 a) (x23 a) (x30 a) (x32 a) (x33 a) * X p
     + det3 (x00 a) (x02 a) (x03 a) (x20 a) (x22 a) (x23 a) (x30 a) (x32 a) (x33 a) * Y p
     - det3 (x00 a) (x02 a) (x03 a) (x10 a) (x12 a) (x13 a) (x30 a) (x32 a) (x33 a) * Z p
     + det3 (x00 a) (x02 a) (x03 a) (x10 a) (x12 a) (x13 a) (x20 a) (x22 a) (x23 a)"

definition inv_num2 :: "m44 \<Rightarrow> Vec3 \<Rightarrow> real" where
  "inv_num2 a p =
       det3 (x10 a) (x11 a) (x13 a) (x20 a) (x21 a) (x23 a) (x30 a) (x31 a) (x33 a) * X p
     - det3 (x00 a) (x01 a) (x03 a) (x20 a) (x21 a) (x23 a) (x30 a) (x31 a) (x33 a) * Y p
     + det3 (x00 a) (x01 a) (x03 a) (x10 a) (x11 a) (x13 a) (x30 a) (x31 a) (x33 a) * Z p
     - det3 (x00 a) (x01 a) (x03 a) (x10 a) (x11 a) (x13 a) (x20 a) (x21 a) (x23 a)"

section \<open>Example solids\<close>

text \<open>The unit sphere, as \<^verbatim>\<open>Sphere3D(1)\<close> builds it.\<close>

definition unit_sphere :: SDF3 where
  "unit_sphere =
     SphereSDF3_SDF3 \<lparr>sphere_radius = 1,
                      sphere_bb = \<lparr>Min3 = r3_Scale (-1) (V3 1 1 1), Max3 = V3 1 1 1\<rparr>\<rparr>"

text \<open>The cube of side 2, as \<^verbatim>\<open>Box3D({2,2,2}, 0)\<close> builds it.\<close>

definition cube2 :: SDF3 where
  "cube2 =
     BoxSDF3_SDF3 \<lparr>box_size = V3 1 1 1, box_round = 0,
                   box_bb = \<lparr>Min3 = V3 (- 1) (- 1) (- 1), Max3 = V3 1 1 1\<rparr>\<rparr>"

text \<open>The rotation about the \<open>z\<close> axis by the angle of cosine \<open>3/5\<close> and sine \<open>4/5\<close>.\<close>

definition rot345 :: m44 where
  "rot345 =
     \<lparr>x00 = 3 / 5, x01 = - (4 / 5), x02 = 0, x03 = 0,
      x10 = 4 / 5, x11 = 3 / 5, x12 = 0, x13 = 0,
      x20 = 0, x21 = 0, x22 = 1, x23 = 0,
      x30 = 0, x31 = 0, x32 = 0, x33 = 1\<rparr>"

text \<open>A disc of radius 3 as a 2D profile.\<close>

definition disc3 :: SDF2 where
  "disc3 = \<lparr>Evaluate2 = (\<lambda>q. r2_Norm q - 3),
            BoundingBox2 = \<lparr>Min2 = V2 (-3) (-3), Max2 = V2 3 3\<rparr>\<rparr>"

section \<open>Basic facts\<close>

lemmas vec_defs = V3_def V2_def r3_Add_def r3_Sub_def r3_Scale_def r3_Dot_def r3_Norm_def
  d3_AbsElem_def d3_Elem_def d3_Max_def d3_LTEZero_def Hypot_def

lemma sqrt_25: "sqrt 25 = 5"
proof -
  have "sqrt (5\<^sup>2) = (5::real)" by simp
  then show ?thesis by simp
qed

lemma Sphere3D_unit: "Sphere3D 1 = Inr (Some unit_sphere)"
  by (simp add: Sphere3D_def unit_sphere_def Let_def)

lemma unit_sphere_Evaluate: "Evaluate unit_sphere p = r3_Norm p - 1"
  by (simp add: unit_sphere_def SphereSDF3_SDF3_def SphereSDF3_Evaluate_def)

lemma d3_AbsElem_neg: "d3_AbsElem (V3 (- X h) (- Y h) (- Z h)) = d3_AbsElem h"
  by (simp add: d3_AbsElem_def V3_def)

section \<open>Rounding to float64\<close>

text \<open>
  Within a binade from \<^verbatim>\<open>2^e\<close> to \<^verbatim>\<open>2^(e+1)\<close> of the normal range \<^const>\<open>fl64\<close> rounds to a
  multiple of \<^verbatim>\<open>2^(e-52)\<close>; it keeps the numbers that are such multiples, and it moves a
  number of the normal range by at most the fraction \<^verbatim>\<open>2^-53\<close> of its magnitude.
\<close>

lemma pow2_powr: "pow2 e = 2 powr of_int e"
  by (simp add: pow2_def powr_int)

lemma pow2_pos: "0 < pow2 e"
  by (simp add: pow2_powr)

lemma pow2_add: "pow2 (a + b) = pow2 a * pow2 b"
  by (simp add: pow2_powr powr_add)

lemma round_to_even_err: "abs (of_int (round_to_even y) - y) \<le> 1 / 2"
proof -
  have "of_int \<lfloor>y\<rfloor> \<le> y" "y < of_int \<lfloor>y\<rfloor> + 1" by linarith+
  then show ?thesis by (auto simp: round_to_even_def Let_def)
qed

lemma round_to_even_of_int: "round_to_even (of_int n) = n"
  by (simp add: round_to_even_def)

lemma fl64_binade:
  assumes "pow2 e \<le> abs x" and "abs x < pow2 (e + 1)" and "- 1022 \<le> e"
  shows "fl64 x = of_int (round_to_even (x / pow2 (e - 52))) * pow2 (e - 52)"
proof -
  have pos: "0 < abs x" using assms(1) pow2_pos [of e] by linarith
  have "\<lfloor>log 2 (abs x)\<rfloor> = e"
    using assms(1,2) pos by (simp add: floor_log_eq_powr_iff pow2_powr)
  with pos assms(3) show ?thesis by (simp add: fl64_def Let_def max_def)
qed

lemma fl64_exact:
  assumes "pow2 e \<le> abs x" and "abs x < pow2 (e + 1)" and "- 1022 \<le> e"
    and "x / pow2 (e - 52) = of_int n"
  shows "fl64 x = x"
proof -
  have "fl64 x = of_int n * pow2 (e - 52)"
    by (simp add: fl64_binade [OF assms(1-3)] assms(4) round_to_even_of_int)
  also have "\<dots> = x" using assms(4) pow2_pos [of "e - 52"] by (simp add: field_simps)
  finally show ?thesis .
qed

lemma fl64_rel_err:
  assumes "pow2 (- 1022) \<le> abs x"
  shows "abs (fl64 x - x) \<le> abs x / 2 ^ 53"
proof -
  have pos: "0 < abs x" using assms pow2_pos [of "- 1022"] by linarith
  define e where "e = \<lfloor>log 2 (abs x)\<rfloor>"
  have b: "pow2 e \<le> abs x" "abs x < pow2 (e + 1)"
    using floor_log_eq_powr_iff [of "abs x" 2 e] pos by (simp_all add: e_def pow2_powr)
  have "pow2 (- 1022) < pow2 (e + 1)" using assms b(2) by linarith
  then have "- 1022 < e + 1" by (simp add: pow2_powr)
  then have lo: "- 1022 \<le> e" by simp
  let ?q = "pow2 (e - 52)"
  have q: "0 < ?q" by (rule pow2_pos)
  have qe: "?q * 2 ^ 52 = pow2 e"
    using pow2_add [of "e - 52" 52] by (simp add: pow2_def)
  have f: "fl64 x = of_int (round_to_even (x / ?q)) * ?q"
    by (rule fl64_binade [OF b lo])
  have "fl64 x - x = (of_int (round_to_even (x / ?q)) - x / ?q) * ?q"
    using q by (simp add: f field_simps)
  then have "abs (fl64 x - x) = abs (of_int (round_to_even (x / ?q)) - x / ?q) * ?q"
    using q by (simp add: abs_mult)
  also have "\<dots> \<le> (1 / 2) * ?q"
    using round_to_even_err [of "x / ?q"] q by (intro mult_right_mono) simp_all
  also have "\<dots> = pow2 e / 2 ^ 53" using qe by (simp add: field_simps)
  also have "\<dots> \<le> abs x / 2 ^ 53" using b(1) by (simp add: divide_right_mono)
  finally show ?thesis .
qed

lemma scaled_coordinate_err:
  assumes "0 < k" and "k \<le> 2 ^ 1022" and "pow2 (- 1022) \<le> abs (fl64 (1 / k) * x)"
  shows "abs (fl64 (fl64 (1 / k) * x) - x / k) \<le> (1 / 2 ^ 52 + 1 / 2 ^ 106) * abs (x / k)"
proof -
  let ?i = "fl64 (1 / k)"
  let ?u = "(1 / 2 ^ 53 :: real)"
  have "pow2 (- 1022) \<le> 1 / k"
    using assms(1,2) by (simp add: pow2_def field_simps)
  then have "pow2 (- 1022) \<le> abs (1 / k)" using assms(1) by simp
  from fl64_rel_err [OF this] have i: "abs (?i - 1 / k) \<le> (1 / k) * ?u"
    using assms(1) by simp
  have "?i * x - x / k = (?i - 1 / k) * x" by (simp add: algebra_simps)
  then have "abs (?i * x - x / k) = abs (?i - 1 / k) * abs x" by (simp add: abs_mult)
  also have "\<dots> \<le> ((1 / k) * ?u) * abs x" using i by (intro mult_right_mono) simp_all
  also have "\<dots> = abs (x / k) * ?u" using assms(1) by (simp add: abs_mult)
  finally have d1: "abs (?i * x - x / k) \<le> abs (x / k) * ?u" .
  then have m: "abs (?i * x) \<le> abs (x / k) + abs (x / k) * ?u" by linarith
  from fl64_rel_err [OF assms(3)] have "abs (fl64 (?i * x) - ?i * x) \<le> abs (?i * x) * ?u"
    by simp
  also have "\<dots> \<le> (abs (x / k) + abs (x / k) * ?u) * ?u"
    using m by (intro mult_right_mono) simp_all
  finally have d2: "abs (fl64 (?i * x) - ?i * x) \<le> (abs (x / k) + abs (x / k) * ?u) * ?u" .
  have "abs (fl64 (?i * x) - x / k) \<le> abs (fl64 (?i * x) - ?i * x) + abs (?i * x - x / k)"
    by linarith
  also have "\<dots> \<le> (abs (x / k) + abs (x / k) * ?u) * ?u + abs (x / k) * ?u"
    using d1 d2 by linarith
  also have "\<dots> = (1 / 2 ^ 52 + 1 / 2 ^ 106) * abs (x / k)"
    by (simp add: algebra_simps)
  finally show ?thesis .
qed

section \<open>Uniform scaling multiplies by a rounded reciprocal\<close>

lemma Box3D_cube2: "Box3D (V3 2 2 2) 0 = Inr (Some cube2)"
  by (simp add: Box3D_def cube2_def Let_def d3_LTEZero_def r3_Scale_def r3_Sub_def d3_Elem_def
      V3_def)

lemma cube2_Evaluate_X:
  "0 \<le> x \<Longrightarrow> x \<le> 1 \<Longrightarrow> Evaluate cube2 (V3 x 0 0) = x - 1"
  by (simp add: cube2_def BoxSDF3_SDF3_def BoxSDF3_Evaluate_def sdfBox3d_def Let_def
      r3_Sub_def d3_AbsElem_def d3_Max_def V3_def)

lemma fl64_0: "fl64 0 = 0"
  by (simp add: fl64_def)

lemma fl64_inv49: "fl64 (1 / 49) = 5882252574524729 / 2 ^ 58"
  by (subst fl64_binade [where e = "- 6"]) (simp_all add: pow2_def round_to_even_def Let_def)

lemma fl64_inv49_times_49: "fl64 (fl64 (1 / 49) * 49) = 1 - 1 / 2 ^ 53"
  unfolding fl64_inv49
  by (subst fl64_binade [where e = "- 1"]) (simp_all add: pow2_def round_to_even_def Let_def)

lemma fl64_product_49: "fl64 ((1 - 1 / 2 ^ 53 - 1) * 49) = - (49 / 2 ^ 53)"
  by (subst fl64_binade [where e = "- 48"]) (simp_all add: pow2_def round_to_even_def Let_def)

lemma ScaleUniform3D_result_eval:
  "result_eval (ScaleUniform3D (Some c) k) p
     = Some (fl64 (Evaluate c (r3_Scale_f64 (fl64 (1 / k)) p) * k))"
  by (simp add: result_eval_def ScaleUniform3D_def ScaleUniformSDF3_SDF3_def
      ScaleUniformSDF3_Evaluate_def Let_def)

text \<open>
  Claim C1, as stated: \<^verbatim>\<open>ScaleUniform3D(sdf, k).Evaluate(p)\<close> equals
  \<open>k * sdf.Evaluate(p / k)\<close> for every \<open>k > 0\<close>. For the cube of side 2, \<open>k = 49\<close> and
  \<open>p = (49, 0, 0)\<close> the stored reciprocal is \<open>1/49\<close> rounded down, its product with 49
  rounds to \<^verbatim>\<open>1 - 2^-53\<close>, a point inside the cube, and the result is \<^verbatim>\<open>-49 / 2^53\<close>, where
  \<open>p / k = (1, 0, 0)\<close> lies on the surface and \<open>k * sdf.Evaluate(p / k)\<close> is 0. (The cube's
  own \<^verbatim>\<open>Evaluate\<close> subtracts 1 from the three coordinates and takes a maximum, all of it
  exact in \<^verbatim>\<open>float64\<close> at this point.)
\<close>

theorem scale_uniform_reciprocal_rounds:
  "Box3D (V3 2 2 2) 0 = Inr (Some cube2) \<and>
   result_eval (ScaleUniform3D (Some cube2) 49) (V3 49 0 0) = Some (- (49 / 2 ^ 53)) \<and>
   49 * Evaluate cube2 (V3 (49 / 49) (0 / 49) (0 / 49)) = 0 \<and>
   result_eval (ScaleUniform3D (Some cube2) 49) (V3 49 0 0)
     \<noteq> Some (49 * Evaluate cube2 (V3 (49 / 49) (0 / 49) (0 / 49)))"
proof -
  have q: "r3_Scale_f64 (fl64 (1 / 49)) (V3 49 0 0) = V3 (1 - 1 / 2 ^ 53) 0 0"
    by (simp add: r3_Scale_f64_def fl64_inv49_times_49 fl64_0 V3_def)
  have e: "Evaluate cube2 (V3 (1 - 1 / 2 ^ 53) 0 0) = 1 - 1 / 2 ^ 53 - 1"
    by (rule cube2_Evaluate_X) simp_all
  have "result_eval (ScaleUniform3D (Some cube2) 49) (V3 49 0 0) = Some (- (49 / 2 ^ 53))"
    by (simp only: ScaleUniform3D_result_eval q e fl64_product_49)
  moreover have "49 * Evaluate cube2 (V3 (49 / 49) (0 / 49) (0 / 49)) = 0"
    using cube2_Evaluate_X [of 1] by simp
  ultimately show ?thesis using Box3D_cube2 by simp
qed

text \<open>
  Claim C1, amended. For every (non-nil) SDF3 \<open>sdf\<close>, every \<open>k > 0\<close> and every point
  \<open>p\<close>, \<^verbatim>\<open>ScaleUniform3D(sdf, k).Evaluate(p)\<close> is \<open>sdf.Evaluate(q) * k\<close>, rounded, where
  \<open>q\<close> is \<open>p\<close> multiplied, coordinate by coordinate and rounded, by the reciprocal
  \<open>1 / k\<close> that the constructor rounded and stored. Each coordinate of \<open>q\<close> is within
  the relative error \<^verbatim>\<open>2^-52 + 2^-106\<close> of the coordinate of \<open>p / k\<close>, as long as
  \<^verbatim>\<open>k <= 2^1022\<close> and the product is in the normal range.
\<close>

theorem scale_uniform_evaluate:
  assumes "0 < k"
  shows "\<exists>s. ScaleUniform3D (Some sdf) k = Inr (Some s) \<and>
     (\<forall>p. Evaluate s p =
            fl64 (Evaluate sdf (V3 (fl64 (fl64 (1 / k) * X p)) (fl64 (fl64 (1 / k) * Y p))
                                   (fl64 (fl64 (1 / k) * Z p))) * k)) \<and>
     (k \<le> 2 ^ 1022 \<longrightarrow>
        (\<forall>x. pow2 (- 1022) \<le> abs (fl64 (1 / k) * x) \<longrightarrow>
             abs (fl64 (fl64 (1 / k) * x) - x / k) \<le> (1 / 2 ^ 52 + 1 / 2 ^ 106) * abs (x / k)))"
  using scaled_coordinate_err [OF assms]
  by (simp add: ScaleUniform3D_def ScaleUniformSDF3_SDF3_def ScaleUniformSDF3_Evaluate_def
      Let_def r3_Scale_f64_def)

lemma fl64_half: "fl64 (1 / 2) = 1 / 2"
  by (rule fl64_exact [where e = "- 1" and n = "2 ^ 52"]) (simp_all add: pow2_def)

lemma fl64_3: "fl64 3 = 3"
  by (rule fl64_exact [where e = 1 and n = "3 * 2 ^ 51"]) (simp_all add: pow2_def)

lemma fl64_4: "fl64 4 = 4"
  by (rule fl64_exact [where e = 2 and n = "2 ^ 52"]) (simp_all add: pow2_def)

lemma fl64_8: "fl64 8 = 8"
  by (rule fl64_exact [where e = 3 and n = "2 ^ 52"]) (simp_all add: pow2_def)

text \<open>
  The unit sphere scaled by 2, at the point \<open>(6, 8, 0)\<close>: the reciprocal \<open>1/2\<close> and the
  products are exact, and the distance is \<open>(5 - 1) * 2 = 8\<close>.
\<close>

theorem scale_uniform_evaluate_witness:
  "(0::real) < 2 \<and> (2::real) \<le> 2 ^ 1022 \<and> pow2 (- 1022) \<le> abs (fl64 (1 / 2) * 6) \<and>
   (\<exists>s. ScaleUniform3D (Some unit_sphere) 2 = Inr (Some s) \<and> Evaluate s (V3 6 8 0) = 8) \<and>
   abs (fl64 (fl64 (1 / 2) * 6) - 6 / 2) \<le> (1 / 2 ^ 52 + 1 / 2 ^ 106) * abs (6 / 2 :: real)"
proof -
  have h: "(0::real) < 2" by simp
  have r: "(2::real) \<le> 2 ^ 1022" by simp
  have n: "pow2 (- 1022) \<le> abs (fl64 (1 / 2) * 6)" by (simp add: fl64_half pow2_def)
  from scale_uniform_evaluate [OF h, of unit_sphere] r obtain s where
    s: "ScaleUniform3D (Some unit_sphere) 2 = Inr (Some s)" and
    e: "\<forall>p. Evaluate s p =
            fl64 (Evaluate unit_sphere (V3 (fl64 (fl64 (1 / 2) * X p)) (fl64 (fl64 (1 / 2) * Y p))
                                   (fl64 (fl64 (1 / 2) * Z p))) * 2)" and
    b: "\<forall>x. pow2 (- 1022) \<le> abs (fl64 (1 / 2) * x) \<longrightarrow>
             abs (fl64 (fl64 (1 / 2) * x) - x / 2) \<le> (1 / 2 ^ 52 + 1 / 2 ^ 106) * abs (x / 2)"
    by blast
  from e have "Evaluate s (V3 6 8 0) = 8"
    by (simp add: fl64_half fl64_3 fl64_4 fl64_0 fl64_8 unit_sphere_Evaluate r3_Norm_def V3_def
        sqrt_25)
  moreover from b n have
    "abs (fl64 (fl64 (1 / 2) * 6) - 6 / 2) \<le> (1 / 2 ^ 52 + 1 / 2 ^ 106) * abs (6 / 2 :: real)"
    by blast
  ultimately show ?thesis using h r n s by blast
qed

section \<open>Validation in the primitive constructors\<close>

text \<open>
  Claim C2, as stated: every primitive constructor fails whenever a size or radius
  parameter is \<open>\<le> 0\<close> and whenever round exceeds the governing dimension. \<^verbatim>\<open>Cone3D\<close>
  checks its height and its rounding against the height only: the cone of height 2 with
  base radius 1 and top radius 0 (a pointed cone) is built, and so are a cone with two
  negative radii and a cone of radius 1 rounded by 2. \<^verbatim>\<open>Box3D\<close> does not compare the
  rounding with the size: the box of side 2 rounded by 5 is built.
\<close>

theorem unchecked_parameters_accepted:
  "\<not> isl (Cone3D 2 1 0 0) \<and>
   \<not> isl (Cone3D 2 (- 1) (- 1) 0) \<and>
   \<not> isl (Cone3D 4 1 1 2) \<and>
   \<not> isl (Box3D (V3 2 2 2) 5)"
  by (simp add: Cone3D_def Box3D_def Let_def d3_LTEZero_def V3_def)

text \<open>
  Claim C2, amended. Each primitive constructor fails with an \<^verbatim>\<open>ErrMsg\<close> error, and
  returns no SDF3, in these cases: \<^verbatim>\<open>Box3D\<close> when a component of the size is \<open>\<le> 0\<close> or
  \<open>round < 0\<close>; \<^verbatim>\<open>Sphere3D\<close> when \<open>radius \<le> 0\<close>; \<^verbatim>\<open>Cylinder3D\<close> when \<open>radius \<le> 0\<close>,
  \<open>round < 0\<close>, \<open>round > radius\<close> or \<open>height < 2 * round\<close>; \<^verbatim>\<open>Cone3D\<close> when \<open>height \<le> 0\<close>,
  \<open>round < 0\<close> or \<open>height < 2 * round\<close>. The amended claim says nothing of a cone radius
  \<open>\<le> 0\<close>, nor of a rounding larger than the half-size of a box or the radius of a cone.
\<close>

theorem primitive_constructors_reject:
  "(d3_LTEZero sz \<or> rnd < 0 \<longrightarrow> (\<exists>m. Box3D sz rnd = Inl (ErrMsg m))) \<and>
   (r \<le> 0 \<longrightarrow> (\<exists>m. Sphere3D r = Inl (ErrMsg m))) \<and>
   (radius \<le> 0 \<or> rnd1 < 0 \<or> rnd1 > radius \<or> height < 2 * rnd1 \<longrightarrow>
      (\<exists>m. Cylinder3D height radius rnd1 = Inl (ErrMsg m))) \<and>
   (height2 \<le> 0 \<or> rnd2 < 0 \<or> height2 < 2 * rnd2 \<longrightarrow>
      (\<exists>m. Cone3D height2 r0 r1 rnd2 = Inl (ErrMsg m)))"
  by (simp add: Box3D_def Sphere3D_def Cylinder3D_def Cone3D_def)

text \<open>
  A box with a zero side, a sphere of radius 0, a cylinder rounded by more than its radius
  and a cone of height 0.
\<close>

theorem primitive_constructors_reject_witness:
  "(d3_LTEZero (V3 0 1 1) \<and> (\<exists>m. Box3D (V3 0 1 1) 0 = Inl (ErrMsg m))) \<and>
   ((0::real) \<le> 0 \<and> (\<exists>m. Sphere3D 0 = Inl (ErrMsg m))) \<and>
   ((2::real) > 1 \<and> (\<exists>m. Cylinder3D 1 1 2 = Inl (ErrMsg m))) \<and>
   ((0::real) \<le> 0 \<and> (\<exists>m. Cone3D 0 1 1 0 = Inl (ErrMsg m)))"
  using primitive_constructors_reject [where sz = "V3 0 1 1" and rnd = 0 and r = 0
      and height = 1 and radius = 1 and ?rnd1.0 = 2
      and ?height2.0 = 0 and ?r0.0 = 1 and ?r1.0 = 1 and ?rnd2.0 = 0]
  by (simp add: d3_LTEZero_def V3_def)

section \<open>Union and difference with nil operands\<close>

text \<open>
  Claim C3. \<^verbatim>\<open>Union3D()\<close> with no argument returns nil, and \<^verbatim>\<open>Union3D(A)\<close> with one
  argument returns \<open>A\<close> itself, hence the same \<^verbatim>\<open>Evaluate\<close> and the same bounding box,
  with no union node around it.
\<close>

theorem union_zero_and_one: "Union3D [] = None \<and> Union3D [A] = A"
  by (cases A) (simp_all add: Union3D_def)

text \<open>
  Claim C4. \<^verbatim>\<open>Difference3D(A, B)\<close> with \<open>B\<close> nil returns \<open>A\<close> itself; with \<open>A\<close> nil it
  returns nil; with both operands non-nil its \<^verbatim>\<open>Evaluate(p)\<close> is
  \<open>max (A.Evaluate(p)) (- B.Evaluate(p))\<close> under the default blend function.
\<close>

theorem difference_nil_and_evaluate:
  "Difference3D A None = A \<and>
   Difference3D None B = None \<and>
   (\<exists>s. Difference3D (Some a) (Some b) = Some s \<and>
        (\<forall>p. Evaluate s p = max (Evaluate a p) (- Evaluate b p)))"
  by (cases B)
     (simp_all add: Difference3D_def DifferenceSDF3_SDF3_def DifferenceSDF3_Evaluate_def)

section \<open>Box and sphere\<close>

text \<open>
  Claim C6. For the box built by \<^verbatim>\<open>Box3D({2,2,2}, 0)\<close>, \<^verbatim>\<open>Evaluate\<close> returns \<open>-1\<close> at the
  centre \<open>(0,0,0)\<close>, \<open>0\<close> at \<open>(1,0,0)\<close> and \<open>1\<close> at \<open>(2,0,0)\<close>.
\<close>

theorem box_scenario:
  "\<exists>s. Box3D (V3 2 2 2) 0 = Inr (Some s) \<and>
       Evaluate s (V3 0 0 0) = - 1 \<and>
       Evaluate s (V3 1 0 0) = 0 \<and>
       Evaluate s (V3 2 0 0) = 1"
  by (simp add: Box3D_def BoxSDF3_SDF3_def BoxSDF3_Evaluate_def sdfBox3d_def Let_def vec_defs)

text \<open>
  Claim C7. For every radius \<open>r > 0\<close>, \<^verbatim>\<open>Sphere3D(r)\<close> builds a sphere whose
  \<^verbatim>\<open>Evaluate(p)\<close> is the norm of \<open>p\<close> minus \<open>r\<close>; in particular
  \<^verbatim>\<open>Sphere3D(1.0).Evaluate({3,4,0})\<close> is 4.
\<close>

theorem sphere_evaluate:
  "(0 < r \<longrightarrow>
      (\<exists>s. Sphere3D r = Inr (Some s) \<and>
           (\<forall>p. Evaluate s p = sqrt (X p * X p + Y p * Y p + Z p * Z p) - r))) \<and>
   (\<exists>s. Sphere3D 1 = Inr (Some s) \<and> Evaluate s (V3 3 4 0) = 4)"
  by (simp add: Sphere3D_def SphereSDF3_SDF3_def SphereSDF3_Evaluate_def Let_def
      r3_Norm_def V3_def sqrt_25)

text \<open>The sphere of radius \<open>1/2\<close> at the point \<open>(0, 3, 4)\<close>: \<open>5 - 1/2\<close>.\<close>

theorem sphere_evaluate_witness:
  "(0::real) < 1 / 2 \<and>
   (\<exists>s. Sphere3D (1 / 2) = Inr (Some s) \<and> Evaluate s (V3 0 3 4) = 9 / 2)"
proof -
  have h: "(0::real) < 1 / 2" by simp
  from sphere_evaluate [of "1 / 2"] h obtain s where
    s: "Sphere3D (1 / 2) = Inr (Some s)" and
    e: "\<forall>p. Evaluate s p = sqrt (X p * X p + Y p * Y p + Z p * Z p) - 1 / 2"
    by blast
  from e have "Evaluate s (V3 0 3 4) = 9 / 2"
    by (simp add: V3_def sqrt_25)
  with s h show ?thesis by blast
qed

section \<open>Bounding boxes of intersection and cut\<close>

text \<open>
  Claim C9. For non-nil \<open>A\<close> and \<open>B\<close>, the bounding box of \<^verbatim>\<open>Intersect3D(A, B)\<close> is the
  box of \<open>A\<close>, and the bounding box of \<^verbatim>\<open>Cut3D(sdf, a, n)\<close> is the box of \<open>sdf\<close>: neither
  constructor tightens it.
\<close>

theorem intersect_cut_bounding_box:
  "(\<exists>s. Intersect3D (Some a) (Some b) = Some s \<and> BoundingBox s = BoundingBox a) \<and>
   (\<exists>s. Cut3D (Some c) pa n = Inr (Some s) \<and> BoundingBox s = BoundingBox c)"
  by (simp add: Intersect3D_def IntersectionSDF3_SDF3_def IntersectionSDF3_BoundingBox_def
      Cut3D_def CutSDF3_SDF3_def CutSDF3_BoundingBox_def Let_def)

section \<open>Elongation\<close>

text \<open>
  Claim C10. Elongation does not depend on the signs of the components of its vector:
  \<^verbatim>\<open>Elongate3D(sdf, h)\<close> and \<^verbatim>\<open>Elongate3D(sdf, -h)\<close> are the same result, both being the
  elongation by the componentwise absolute value of \<open>h\<close>; for a non-nil \<open>sdf\<close> the two
  nodes have the same \<^verbatim>\<open>Evaluate\<close> at every point and the same bounding box.
\<close>

theorem elongate_sign_insensitive:
  "Elongate3D sdf (V3 (- X h) (- Y h) (- Z h)) = Elongate3D sdf h \<and>
   Elongate3D sdf h = Elongate3D sdf (d3_AbsElem h) \<and>
   (\<exists>s s'. Elongate3D (Some c) h = Inr (Some s) \<and>
           Elongate3D (Some c) (V3 (- X h) (- Y h) (- Z h)) = Inr (Some s') \<and>
           (\<forall>p. Evaluate s p = Evaluate s' p) \<and>
           BoundingBox s = BoundingBox s')"
  by (simp add: Elongate3D_def d3_AbsElem_neg Let_def d3_AbsElem_def V3_def)

section \<open>Partial revolution\<close>

lemma math_Mod_range:
  assumes "0 \<le> x" and "0 < y"
  shows "0 \<le> math_Mod x y \<and> math_Mod x y < y"
proof (cases "x = 0")
  case True
  then show ?thesis using assms by (simp add: math_Mod_def)
next
  case False
  then have xp: "0 < x" using assms by simp
  let ?n = "\<lfloor>x / y\<rfloor>"
  have lo: "of_int ?n \<le> x / y" by simp
  have hi: "x / y < of_int ?n + 1" by linarith
  have "of_int ?n * y \<le> x" using lo assms(2) by (simp only: pos_le_divide_eq)
  moreover have "x < (of_int ?n + 1) * y" using hi assms(2) by (simp only: pos_divide_less_eq)
  ultimately show ?thesis using xp assms(2) by (simp add: math_Mod_def algebra_simps)
qed

lemma math_Mod_quarter_turn: "math_Mod (pi / 2) tau = pi / 2"
proof -
  have "\<lfloor>(pi / 2) / (2 * pi)\<rfloor> = 0" by (simp add: floor_eq_iff)
  then show ?thesis by (simp add: math_Mod_def tau_def)
qed

lemma d2_Set_Min_Some: "vs \<noteq> [] \<Longrightarrow> \<exists>m. d2_Set_Min vs = Some m"
  by (cases vs) simp_all

lemma d2_Set_Max_Some: "vs \<noteq> [] \<Longrightarrow> \<exists>m. d2_Set_Max vs = Some m"
  by (cases vs) simp_all

text \<open>
  Claim C8. For a solid of revolution built with angle \<open>theta \<ge> 0\<close>, the stored angle
  \<open>\<theta>\<close> is \<open>theta\<close> normalised into \<open>[0, 2\<pi>)\<close>, and \<^verbatim>\<open>Evaluate(p)\<close> is the maximum of the
  profile's distance \<open>a\<close> at \<open>(sqrt (x\<^sup>2 + y\<^sup>2), z)\<close> and a wedge constraint: with \<open>d\<close> the
  projection of \<open>(x, y)\<close> on the stored normal \<open>(- sin \<theta>, cos \<theta>)\<close> of the \<open>\<theta>\<close> line, the
  wedge is \<open>max (-y) d\<close> when \<open>\<theta> < \<pi>\<close> and \<open>min (-y) d\<close> when \<open>\<theta> \<ge> \<pi>\<close>; when \<open>\<theta> = 0\<close>
  there is no wedge and the result is \<open>a\<close> alone.
\<close>

theorem revolve_evaluate:
  assumes "0 \<le> theta"
  shows "\<exists>s. RevolveTheta3D (Some c) theta = Inr (Some s) \<and>
     (let \<theta> = math_Mod (abs theta) tau in
        0 \<le> \<theta> \<and> \<theta> < 2 * pi \<and>
        (\<forall>p. let a = Evaluate2 c (V2 (sqrt (X p * X p + Y p * Y p)) (Z p));
                 d = - sin \<theta> * X p + cos \<theta> * Y p
             in Evaluate s p =
                  (if \<theta> = 0 then a
                   else if \<theta> < pi then max a (max (- Y p) d)
                   else max a (min (- Y p) d))))"
proof -
  let ?t = "math_Mod (abs theta) tau"
  let ?vset = "(if ?t = 0 then [V2 1 1, V2 (-1) (-1)]
                else [V2 0 0, V2 1 0, V2 (cos ?t) (sin ?t)]
                     @ (if ?t > 0.5 * pi then [V2 0 1] else [])
                     @ (if ?t > pi then [V2 (-1) 0] else [])
                     @ (if ?t > 1.5 * pi then [V2 0 (-1)] else []))"
  have ne: "?vset \<noteq> []" by simp
  obtain mn where mn: "d2_Set_Min ?vset = Some mn" using d2_Set_Min_Some [OF ne] by blast
  obtain mx where mx: "d2_Set_Max ?vset = Some mx" using d2_Set_Max_Some [OF ne] by blast
  have rng: "0 \<le> ?t \<and> ?t < 2 * pi"
    using math_Mod_range [of "abs theta" tau] by (simp add: tau_def)
  show ?thesis
    using assms rng mn mx
    unfolding RevolveTheta3D_def Let_def
    by (simp add: SorSDF3_SDF3_def SorSDF3_Evaluate_def r2_Dot_def V2_def Let_def)
qed

text \<open>
  A quarter turn of the disc of radius 3, at the point \<open>(0, -2, 0)\<close>: inside the profile
  (\<open>a = -1\<close>) and outside the wedge (\<open>-y = 2\<close>, \<open>d = 0\<close>), so the distance is 2.
\<close>

theorem revolve_evaluate_witness:
  "0 \<le> pi / 2 \<and>
   (\<exists>s. RevolveTheta3D (Some disc3) (pi / 2) = Inr (Some s) \<and> Evaluate s (V3 0 (- 2) 0) = 2)"
proof -
  have h: "0 \<le> pi / 2" by simp
  from revolve_evaluate [OF h, of disc3] obtain s where
    s: "RevolveTheta3D (Some disc3) (pi / 2) = Inr (Some s)" and
    e: "(let \<theta> = math_Mod (abs (pi / 2)) tau in
        0 \<le> \<theta> \<and> \<theta> < 2 * pi \<and>
        (\<forall>p. let a = Evaluate2 disc3 (V2 (sqrt (X p * X p + Y p * Y p)) (Z p));
                 d = - sin \<theta> * X p + cos \<theta> * Y p
             in Evaluate s p =
                  (if \<theta> = 0 then a
                   else if \<theta> < pi then max a (max (- Y p) d)
                   else max a (min (- Y p) d))))"
    by blast
  from e have "Evaluate s (V3 0 (- 2) 0) = 2"
    by (simp add: Let_def math_Mod_quarter_turn disc3_def V3_def V2_def r2_Norm_def)
  with s h show ?thesis by blast
qed

section \<open>The inverse of an affine matrix\<close>

text \<open>
  For an affine matrix with a non-zero determinant, \<^const>\<open>Inverse\<close> is affine again, has
  the inverse determinant, and undoes \<^const>\<open>MulPosition\<close> on both sides.
\<close>

lemma det_affine:
  "affine a \<Longrightarrow> Determinant a = det3 (x00 a) (x01 a) (x02 a) (x10 a) (x11 a) (x12 a) (x20 a) (x21 a) (x22 a)"
  by (simp add: affine_def Determinant_def det3_def algebra_simps)

lemma Inverse_affine:
  assumes "affine a" "Determinant a \<noteq> 0"
  shows "affine (Inverse a)"
  using assms(2) unfolding det_affine[OF assms(1)] using assms(1)
  by (simp add: affine_def Inverse_def Let_def Determinant_def det3_def algebra_simps)

lemma div_eqI:
  fixes d :: real
  assumes "d \<noteq> 0" "n = x * d"
  shows "n / d = x"
  using assms by simp

lemma Vec3_eqI: "X p = X q \<Longrightarrow> Y p = Y q \<Longrightarrow> Z p = Z q \<Longrightarrow> p = (q::Vec3)"
  by (rule Vec3.equality) simp_all

lemma MulPosition_div:
  assumes "d \<noteq> 0"
  shows "X (MulPosition a (V3 (n0 / d) (n1 / d) (n2 / d)))
           = (x00 a * n0 + x01 a * n1 + x02 a * n2 + x03 a * d) / d"
    and "Y (MulPosition a (V3 (n0 / d) (n1 / d) (n2 / d)))
           = (x10 a * n0 + x11 a * n1 + x12 a * n2 + x13 a * d) / d"
    and "Z (MulPosition a (V3 (n0 / d) (n1 / d) (n2 / d)))
           = (x20 a * n0 + x21 a * n1 + x22 a * n2 + x23 a * d) / d"
  using assms by (simp_all add: MulPosition_def V3_def field_simps)

lemma MulPosition_Inverse:
  "MulPosition (Inverse a) p =
     V3 (inv_num0 a p / Determinant a) (inv_num1 a p / Determinant a) (inv_num2 a p / Determinant a)"
  unfolding MulPosition_def Inverse_def Let_def inv_num0_def inv_num1_def inv_num2_def
  by (simp add: add_divide_distrib diff_divide_distrib)

lemma MulPosition_Inverse_right:
  assumes "affine a" and "Determinant a \<noteq> 0"
  shows "MulPosition a (MulPosition (Inverse a) p) = p"
proof -
  let ?d = "Determinant a"
  have a: "x30 a = 0" "x31 a = 0" "x32 a = 0" "x33 a = 1"
    using assms(1) by (simp_all add: affine_def)
  have d: "?d = det3 (x00 a) (x01 a) (x02 a) (x10 a) (x11 a) (x12 a) (x20 a) (x21 a) (x22 a)"
    by (rule det_affine [OF assms(1)])
  have px: "x00 a * inv_num0 a p + x01 a * inv_num1 a p + x02 a * inv_num2 a p + x03 a * ?d = X p * ?d"
    unfolding d inv_num0_def inv_num1_def inv_num2_def by (simp add: a det3_def algebra_simps)
  have py: "x10 a * inv_num0 a p + x11 a * inv_num1 a p + x12 a * inv_num2 a p + x13 a * ?d = Y p * ?d"
    unfolding d inv_num0_def inv_num1_def inv_num2_def by (simp add: a det3_def algebra_simps)
  have pz: "x20 a * inv_num0 a p + x21 a * inv_num1 a p + x22 a * inv_num2 a p + x23 a * ?d = Z p * ?d"
    unfolding d inv_num0_def inv_num1_def inv_num2_def by (simp add: a det3_def algebra_simps)
  show ?thesis
  proof (rule Vec3_eqI)
    show "X (MulPosition a (MulPosition (Inverse a) p)) = X p"
      unfolding MulPosition_Inverse MulPosition_div(1) [OF assms(2)]
      by (rule div_eqI [OF assms(2) px])
    show "Y (MulPosition a (MulPosition (Inverse a) p)) = Y p"
      unfolding MulPosition_Inverse MulPosition_div(2) [OF assms(2)]
      by (rule div_eqI [OF assms(2) py])
    show "Z (MulPosition a (MulPosition (Inverse a) p)) = Z p"
      unfolding MulPosition_Inverse MulPosition_div(3) [OF assms(2)]
      by (rule div_eqI [OF assms(2) pz])
  qed
qed

lemma MulPosition_Inverse_left:
  assumes "affine a" and "Determinant a \<noteq> 0"
  shows "MulPosition (Inverse a) (MulPosition a p) = p"
proof -
  let ?d = "Determinant a"
  have a: "x30 a = 0" "x31 a = 0" "x32 a = 0" "x33 a = 1"
    using assms(1) by (simp_all add: affine_def)
  have d: "?d = det3 (x00 a) (x01 a) (x02 a) (x10 a) (x11 a) (x12 a) (x20 a) (x21 a) (x22 a)"
    by (rule det_affine [OF assms(1)])
  have px: "inv_num0 a (MulPosition a p) = X p * ?d"
    unfolding d inv_num0_def by (simp add: a det3_def MulPosition_def V3_def algebra_simps)
  have py: "inv_num1 a (MulPosition a p) = Y p * ?d"
    unfolding d inv_num1_def by (simp add: a det3_def MulPosition_def V3_def algebra_simps)
  have pz: "inv_num2 a (MulPosition a p) = Z p * ?d"
    unfolding d inv_num2_def by (simp add: a det3_def MulPosition_def V3_def algebra_simps)
  show ?thesis
    unfolding MulPosition_Inverse
    by (rule Vec3_eqI) (simp_all add: V3_def div_eqI [OF assms(2) px] div_eqI [OF assms(2) py] div_eqI [OF assms(2) pz])
qed

lemma det3_div:
  fixes d :: real
  assumes "d \<noteq> 0"
  shows "det3 (a / d) (b / d) (c / d) (e / d) (f / d) (g / d) (h / d) (i / d) (j / d)
           = det3 a b c e f g h i j / (d * d * d)"
  using assms by (simp add: det3_def field_simps)

lemma Determinant_Inverse:
  assumes "affine a" and "Determinant a \<noteq> 0"
  shows "Determinant (Inverse a) = 1 / Determinant a"
proof -
  let ?d = "Determinant a"
  have a: "x30 a = 0" "x31 a = 0" "x32 a = 0" "x33 a = 1"
    using assms(1) by (simp_all add: affine_def)
  have d: "?d = det3 (x00 a) (x01 a) (x02 a) (x10 a) (x11 a) (x12 a) (x20 a) (x21 a) (x22 a)"
    by (rule det_affine [OF assms(1)])
  let ?c00 = "det3 (x11 a) (x12 a) (x13 a) (x21 a) (x22 a) (x23 a) (x31 a) (x32 a) (x33 a)"
  let ?c01 = "- det3 (x01 a) (x02 a) (x03 a) (x21 a) (x22 a) (x23 a) (x31 a) (x32 a) (x33 a)"
  let ?c02 = "det3 (x01 a) (x02 a) (x03 a) (x11 a) (x12 a) (x13 a) (x31 a) (x32 a) (x33 a)"
  let ?c10 = "- det3 (x10 a) (x12 a) (x13 a) (x20 a) (x22 a) (x23 a) (x30 a) (x32 a) (x33 a)"
  let ?c11 = "det3 (x00 a) (x02 a) (x03 a) (x20 a) (x22 a) (x23 a) (x30 a) (x32 a) (x33 a)"
  let ?c12 = "- det3 (x00 a) (x02 a) (x03 a) (x10 a) (x12 a) (x13 a) (x30 a) (x32 a) (x33 a)"
  let ?c20 = "det3 (x10 a) (x11 a) (x13 a) (x20 a) (x21 a) (x23 a) (x30 a) (x31 a) (x33 a)"
  let ?c21 = "- det3 (x00 a) (x01 a) (x03 a) (x20 a) (x21 a) (x23 a) (x30 a) (x31 a) (x33 a)"
  let ?c22 = "det3 (x00 a) (x01 a) (x03 a) (x10 a) (x11 a) (x13 a) (x30 a) (x31 a) (x33 a)"
  have "Determinant (Inverse a)
          = det3 (?c00 / ?d) (?c01 / ?d) (?c02 / ?d) (?c10 / ?d) (?c11 / ?d) (?c12 / ?d)
                 (?c20 / ?d) (?c21 / ?d) (?c22 / ?d)"
    unfolding det_affine [OF Inverse_affine [OF assms]]
    by (simp add: Inverse_def Let_def)
  also have "\<dots> = det3 ?c00 ?c01 ?c02 ?c10 ?c11 ?c12 ?c20 ?c21 ?c22 / (?d * ?d * ?d)"
    by (rule det3_div [OF assms(2)])
  also have "det3 ?c00 ?c01 ?c02 ?c10 ?c11 ?c12 ?c20 ?c21 ?c22 = ?d * ?d"
    unfolding d by (simp add: a det3_def algebra_simps)
  finally show ?thesis using assms(2) by simp
qed

section \<open>The box of a transformed box\<close>

text \<open>
  \<^const>\<open>MulBox\<close> bounds the eight moved corners, and each coordinate of a moved point is
  linear in the point: the image of every point of a box lies in the \<^const>\<open>MulBox\<close> of the
  box.
\<close>

lemma foldl_MinElem_all:
  "\<forall>w \<in> set (v # vs).
     X (foldl d3_MinElem v vs) \<le> X w \<and> Y (foldl d3_MinElem v vs) \<le> Y w \<and>
     Z (foldl d3_MinElem v vs) \<le> Z w"
proof (induction vs arbitrary: v)
  case Nil
  then show ?case by simp
next
  case (Cons u vs)
  have m: "X (d3_MinElem v u) \<le> X v" "X (d3_MinElem v u) \<le> X u"
          "Y (d3_MinElem v u) \<le> Y v" "Y (d3_MinElem v u) \<le> Y u"
          "Z (d3_MinElem v u) \<le> Z v" "Z (d3_MinElem v u) \<le> Z u"
    by (simp_all add: d3_MinElem_def V3_def)
  from Cons.IH [of "d3_MinElem v u"] have
    h: "X (foldl d3_MinElem (d3_MinElem v u) vs) \<le> X (d3_MinElem v u)"
       "Y (foldl d3_MinElem (d3_MinElem v u) vs) \<le> Y (d3_MinElem v u)"
       "Z (foldl d3_MinElem (d3_MinElem v u) vs) \<le> Z (d3_MinElem v u)"
    and t: "\<forall>w \<in> set vs. X (foldl d3_MinElem (d3_MinElem v u) vs) \<le> X w \<and>
              Y (foldl d3_MinElem (d3_MinElem v u) vs) \<le> Y w \<and>
              Z (foldl d3_MinElem (d3_MinElem v u) vs) \<le> Z w"
    by simp_all
  from h m have
    "X (foldl d3_MinElem (d3_MinElem v u) vs) \<le> X v" "X (foldl d3_MinElem (d3_MinElem v u) vs) \<le> X u"
    "Y (foldl d3_MinElem (d3_MinElem v u) vs) \<le> Y v" "Y (foldl d3_MinElem (d3_MinElem v u) vs) \<le> Y u"
    "Z (foldl d3_MinElem (d3_MinElem v u) vs) \<le> Z v" "Z (foldl d3_MinElem (d3_MinElem v u) vs) \<le> Z u"
    by linarith+
  with t show ?case by simp
qed

lemma foldl_MinElem_le:
  "w \<in> set (v # vs) \<Longrightarrow>
     X (foldl d3_MinElem v vs) \<le> X w \<and> Y (foldl d3_MinElem v vs) \<le> Y w \<and>
     Z (foldl d3_MinElem v vs) \<le> Z w"
  using foldl_MinElem_all [of v vs] by blast

lemma foldl_MaxElem_all:
  "\<forall>w \<in> set (v # vs).
     X w \<le> X (foldl d3_MaxElem v vs) \<and> Y w \<le> Y (foldl d3_MaxElem v vs) \<and>
     Z w \<le> Z (foldl d3_MaxElem v vs)"
proof (induction vs arbitrary: v)
  case Nil
  then show ?case by simp
next
  case (Cons u vs)
  have m: "X v \<le> X (d3_MaxElem v u)" "X u \<le> X (d3_MaxElem v u)"
          "Y v \<le> Y (d3_MaxElem v u)" "Y u \<le> Y (d3_MaxElem v u)"
          "Z v \<le> Z (d3_MaxElem v u)" "Z u \<le> Z (d3_MaxElem v u)"
    by (simp_all add: d3_MaxElem_def V3_def)
  from Cons.IH [of "d3_MaxElem v u"] have
    h: "X (d3_MaxElem v u) \<le> X (foldl d3_MaxElem (d3_MaxElem v u) vs)"
       "Y (d3_MaxElem v u) \<le> Y (foldl d3_MaxElem (d3_MaxElem v u) vs)"
       "Z (d3_MaxElem v u) \<le> Z (foldl d3_MaxElem (d3_MaxElem v u) vs)"
    and t: "\<forall>w \<in> set vs. X w \<le> X (foldl d3_MaxElem (d3_MaxElem v u) vs) \<and>
              Y w \<le> Y (foldl d3_MaxElem (d3_MaxElem v u) vs) \<and>
              Z w \<le> Z (foldl d3_MaxElem (d3_MaxElem v u) vs)"
    by simp_all
  from h m have
    "X v \<le> X (foldl d3_MaxElem (d3_MaxElem v u) vs)" "X u \<le> X (foldl d3_MaxElem (d3_MaxElem v u) vs)"
    "Y v \<le> Y (foldl d3_MaxElem (d3_MaxElem v u) vs)" "Y u \<le> Y (foldl d3_MaxElem (d3_MaxElem v u) vs)"
    "Z v \<le> Z (foldl d3_MaxElem (d3_MaxElem v u) vs)" "Z u \<le> Z (foldl d3_MaxElem (d3_MaxElem v u) vs)"
    by linarith+
  with t show ?case by simp
qed

lemma foldl_MaxElem_ge:
  "w \<in> set (v # vs) \<Longrightarrow>
     X w \<le> X (foldl d3_MaxElem v vs) \<and> Y w \<le> Y (foldl d3_MaxElem v vs) \<and>
     Z w \<le> Z (foldl d3_MaxElem v vs)"
  using foldl_MaxElem_all [of v vs] by blast

lemma coeff_lower:
  fixes a :: real
  assumes "lo \<le> x" and "x \<le> hi"
  shows "\<exists>w. (w = lo \<or> w = hi) \<and> a * w \<le> a * x"
proof (cases "0 \<le> a")
  case True
  then have "a * lo \<le> a * x" using assms(1) by (rule mult_left_mono [rotated])
  then show ?thesis by blast
next
  case False
  then have "a \<le> 0" by simp
  then have "a * hi \<le> a * x" using assms(2) by (rule mult_left_mono_neg [rotated])
  then show ?thesis by blast
qed

lemma coeff_upper:
  fixes a :: real
  assumes "lo \<le> x" and "x \<le> hi"
  shows "\<exists>w. (w = lo \<or> w = hi) \<and> a * x \<le> a * w"
proof (cases "0 \<le> a")
  case True
  then have "a * x \<le> a * hi" using assms(2) by (rule mult_left_mono [rotated])
  then show ?thesis by blast
next
  case False
  then have "a \<le> 0" by simp
  then have "a * x \<le> a * lo" using assms(1) by (rule mult_left_mono_neg [rotated])
  then show ?thesis by blast
qed

lemma corner_in_Vertices:
  assumes "x = X (Min3 b) \<or> x = X (Max3 b)"
      and "y = Y (Min3 b) \<or> y = Y (Max3 b)"
      and "z = Z (Min3 b) \<or> z = Z (Max3 b)"
  shows "V3 x y z \<in> set (Vertices b)"
  using assms by (auto simp: Vertices_def)

lemma vertex_lower:
  assumes "Contains b q"
  shows "\<exists>w \<in> set (Vertices b).
           a * X w + c * Y w + e * Z w + t \<le> a * X q + c * Y q + e * Z q + t"
proof -
  from assms have bx: "X (Min3 b) \<le> X q" "X q \<le> X (Max3 b)"
    and by': "Y (Min3 b) \<le> Y q" "Y q \<le> Y (Max3 b)"
    and bz: "Z (Min3 b) \<le> Z q" "Z q \<le> Z (Max3 b)"
    by (simp_all add: Contains_def)
  from coeff_lower [OF bx, of a] obtain x where
    x: "x = X (Min3 b) \<or> x = X (Max3 b)" "a * x \<le> a * X q" by blast
  from coeff_lower [OF by', of c] obtain y where
    y: "y = Y (Min3 b) \<or> y = Y (Max3 b)" "c * y \<le> c * Y q" by blast
  from coeff_lower [OF bz, of e] obtain z where
    z: "z = Z (Min3 b) \<or> z = Z (Max3 b)" "e * z \<le> e * Z q" by blast
  have "V3 x y z \<in> set (Vertices b)" by (rule corner_in_Vertices [OF x(1) y(1) z(1)])
  moreover have "a * X (V3 x y z) + c * Y (V3 x y z) + e * Z (V3 x y z) + t
        \<le> a * X q + c * Y q + e * Z q + t"
    using x(2) y(2) z(2) by (simp add: V3_def)
  ultimately show ?thesis by blast
qed

lemma vertex_upper:
  assumes "Contains b q"
  shows "\<exists>w \<in> set (Vertices b).
           a * X q + c * Y q + e * Z q + t \<le> a * X w + c * Y w + e * Z w + t"
proof -
  from assms have bx: "X (Min3 b) \<le> X q" "X q \<le> X (Max3 b)"
    and by': "Y (Min3 b) \<le> Y q" "Y q \<le> Y (Max3 b)"
    and bz: "Z (Min3 b) \<le> Z q" "Z q \<le> Z (Max3 b)"
    by (simp_all add: Contains_def)
  from coeff_upper [OF bx, of a] obtain x where
    x: "x = X (Min3 b) \<or> x = X (Max3 b)" "a * X q \<le> a * x" by blast
  from coeff_upper [OF by', of c] obtain y where
    y: "y = Y (Min3 b) \<or> y = Y (Max3 b)" "c * Y q \<le> c * y" by blast
  from coeff_upper [OF bz, of e] obtain z where
    z: "z = Z (Min3 b) \<or> z = Z (Max3 b)" "e * Z q \<le> e * z" by blast
  have "V3 x y z \<in> set (Vertices b)" by (rule corner_in_Vertices [OF x(1) y(1) z(1)])
  moreover have "a * X q + c * Y q + e * Z q + t
        \<le> a * X (V3 x y z) + c * Y (V3 x y z) + e * Z (V3 x y z) + t"
    using x(2) y(2) z(2) by (simp add: V3_def)
  ultimately show ?thesis by blast
qed

lemma MulBox_Min_le:
  assumes "w \<in> set (Vertices b)"
  shows "X (Min3 (MulBox a b)) \<le> X (MulPosition a w)"
    and "Y (Min3 (MulBox a b)) \<le> Y (MulPosition a w)"
    and "Z (Min3 (MulBox a b)) \<le> Z (MulPosition a w)"
proof -
  have "MulPosition a w \<in> set (MulPosition a (Min3 b) # map (MulPosition a) (Vertices b))"
    using assms by simp
  from foldl_MinElem_le [OF this]
  show "X (Min3 (MulBox a b)) \<le> X (MulPosition a w)"
    and "Y (Min3 (MulBox a b)) \<le> Y (MulPosition a w)"
    and "Z (Min3 (MulBox a b)) \<le> Z (MulPosition a w)"
    by (simp_all add: MulBox_def Let_def d3_Set_Min_def)
qed

lemma MulBox_Max_ge:
  assumes "w \<in> set (Vertices b)"
  shows "X (MulPosition a w) \<le> X (Max3 (MulBox a b))"
    and "Y (MulPosition a w) \<le> Y (Max3 (MulBox a b))"
    and "Z (MulPosition a w) \<le> Z (Max3 (MulBox a b))"
proof -
  have "MulPosition a w \<in> set (MulPosition a (Min3 b) # map (MulPosition a) (Vertices b))"
    using assms by simp
  from foldl_MaxElem_ge [OF this]
  show "X (MulPosition a w) \<le> X (Max3 (MulBox a b))"
    and "Y (MulPosition a w) \<le> Y (Max3 (MulBox a b))"
    and "Z (MulPosition a w) \<le> Z (Max3 (MulBox a b))"
    by (simp_all add: MulBox_def Let_def d3_Set_Max_def)
qed

lemma MulPosition_sel:
  "X (MulPosition a b) = x00 a * X b + x01 a * Y b + x02 a * Z b + x03 a"
  "Y (MulPosition a b) = x10 a * X b + x11 a * Y b + x12 a * Z b + x13 a"
  "Z (MulPosition a b) = x20 a * X b + x21 a * Y b + x22 a * Z b + x23 a"
  by (simp_all add: MulPosition_def V3_def)

lemma MulBox_Contains:
  assumes "Contains b q"
  shows "Contains (MulBox a b) (MulPosition a q)"
proof -
  have lo: "X (Min3 (MulBox a b)) \<le> X (MulPosition a q)"
           "Y (Min3 (MulBox a b)) \<le> Y (MulPosition a q)"
           "Z (Min3 (MulBox a b)) \<le> Z (MulPosition a q)"
  proof -
    from vertex_lower [OF assms, of "x00 a" "x01 a" "x02 a" "x03 a"] obtain w where
      "w \<in> set (Vertices b)" "X (MulPosition a w) \<le> X (MulPosition a q)"
      unfolding MulPosition_sel by blast
    with MulBox_Min_le(1) [of w b a] show "X (Min3 (MulBox a b)) \<le> X (MulPosition a q)"
      by linarith
    from vertex_lower [OF assms, of "x10 a" "x11 a" "x12 a" "x13 a"] obtain w where
      "w \<in> set (Vertices b)" "Y (MulPosition a w) \<le> Y (MulPosition a q)"
      unfolding MulPosition_sel by blast
    with MulBox_Min_le(2) [of w b a] show "Y (Min3 (MulBox a b)) \<le> Y (MulPosition a q)"
      by linarith
    from vertex_lower [OF assms, of "x20 a" "x21 a" "x22 a" "x23 a"] obtain w where
      "w \<in> set (Vertices b)" "Z (MulPosition a w) \<le> Z (MulPosition a q)"
      unfolding MulPosition_sel by blast
    with MulBox_Min_le(3) [of w b a] show "Z (Min3 (MulBox a b)) \<le> Z (MulPosition a q)"
      by linarith
  qed
  have hi: "X (MulPosition a q) \<le> X (Max3 (MulBox a b))"
           "Y (MulPosition a q) \<le> Y (Max3 (MulBox a b))"
           "Z (MulPosition a q) \<le> Z (Max3 (MulBox a b))"
  proof -
    from vertex_upper [OF assms, of "x00 a" "x01 a" "x02 a" "x03 a"] obtain w where
      "w \<in> set (Vertices b)" "X (MulPosition a q) \<le> X (MulPosition a w)"
      unfolding MulPosition_sel by blast
    with MulBox_Max_ge(1) [of w b a] show "X (MulPosition a q) \<le> X (Max3 (MulBox a b))"
      by linarith
    from vertex_upper [OF assms, of "x10 a" "x11 a" "x12 a" "x13 a"] obtain w where
      "w \<in> set (Vertices b)" "Y (MulPosition a q) \<le> Y (MulPosition a w)"
      unfolding MulPosition_sel by blast
    with MulBox_Max_ge(2) [of w b a] show "Y (MulPosition a q) \<le> Y (Max3 (MulBox a b))"
      by linarith
    from vertex_upper [OF assms, of "x20 a" "x21 a" "x22 a" "x23 a"] obtain w where
      "w \<in> set (Vertices b)" "Z (MulPosition a q) \<le> Z (MulPosition a w)"
      unfolding MulPosition_sel by blast
    with MulBox_Max_ge(3) [of w b a] show "Z (MulPosition a q) \<le> Z (Max3 (MulBox a b))"
      by linarith
  qed
  from lo hi show ?thesis by (simp add: Contains_def)
qed

lemma MulBox_round_trip_within:
  assumes "affine a" and "Determinant a \<noteq> 0" and "well_formed b"
  shows "box_within b (MulBox (Inverse a) (MulBox a b))"
proof -
  have c0: "Contains b (Min3 b)" and c1: "Contains b (Max3 b)"
    using assms(3) by (simp_all add: well_formed_def Contains_def)
  have "Contains (MulBox (Inverse a) (MulBox a b)) (MulPosition (Inverse a) (MulPosition a (Min3 b)))"
    by (rule MulBox_Contains [OF MulBox_Contains [OF c0]])
  moreover
  have "Contains (MulBox (Inverse a) (MulBox a b)) (MulPosition (Inverse a) (MulPosition a (Max3 b)))"
    by (rule MulBox_Contains [OF MulBox_Contains [OF c1]])
  ultimately show ?thesis
    by (simp add: box_within_def MulPosition_Inverse_left [OF assms(1,2)])
qed

section \<open>Transform round trip\<close>

lemma rot345_affine: "affine rot345"
  by (simp add: affine_def rot345_def)

lemma rot345_Determinant: "Determinant rot345 = 1"
  by (simp add: Determinant_def det3_def rot345_def)

lemma rot345_Inverse:
  "Inverse rot345 =
     \<lparr>x00 = 3 / 5, x01 = 4 / 5, x02 = 0, x03 = 0,
      x10 = - (4 / 5), x11 = 3 / 5, x12 = 0, x13 = 0,
      x20 = 0, x21 = 0, x22 = 1, x23 = 0,
      x30 = 0, x31 = 0, x32 = 0, x33 = 1\<rparr>"
  by (simp add: Inverse_def rot345_Determinant Let_def) (simp add: rot345_def det3_def)

lemma unit_sphere_BoundingBox:
  "BoundingBox unit_sphere = \<lparr>Min3 = V3 (- 1) (- 1) (- 1), Max3 = V3 1 1 1\<rparr>"
  by (simp add: unit_sphere_def SphereSDF3_SDF3_def SphereSDF3_BoundingBox_def r3_Scale_def V3_def)

lemma MulBox_rot345:
  "MulBox rot345 \<lparr>Min3 = V3 (- 1) (- 1) (- 1), Max3 = V3 1 1 1\<rparr>
     = \<lparr>Min3 = V3 (- (7 / 5)) (- (7 / 5)) (- 1), Max3 = V3 (7 / 5) (7 / 5) 1\<rparr>"
  by (simp add: MulBox_def Let_def Vertices_def d3_Set_Min_def d3_Set_Max_def MulPosition_def
      d3_MinElem_def d3_MaxElem_def V3_def rot345_def)

lemma MulBox_rot345_back:
  "MulBox (Inverse rot345) \<lparr>Min3 = V3 (- (7 / 5)) (- (7 / 5)) (- 1), Max3 = V3 (7 / 5) (7 / 5) 1\<rparr>
     = \<lparr>Min3 = V3 (- (49 / 25)) (- (49 / 25)) (- 1), Max3 = V3 (49 / 25) (49 / 25) 1\<rparr>"
  by (simp only: rot345_Inverse)
     (simp add: MulBox_def Let_def Vertices_def d3_Set_Min_def d3_Set_Max_def MulPosition_def
        d3_MinElem_def d3_MaxElem_def V3_def)

text \<open>
  Claim C5, as stated: the round trip gives back the bounding box of the original. For
  the unit sphere, with box \<open>[-1, 1]\<^sup>3\<close>, and the rotation \<^const>\<open>rot345\<close> (affine, of
  determinant 1), the first transform bounds the rotated box by \<open>[-7/5, 7/5]\<^sup>2 \<times> [-1, 1]\<close>
  and the second bounds that, rotated back, by \<open>[-49/25, 49/25]\<^sup>2 \<times> [-1, 1]\<close>.
\<close>

theorem transform_round_trip_box_grows:
  "affine rot345 \<and> Determinant rot345 = 1 \<and>
   BoundingBox unit_sphere = \<lparr>Min3 = V3 (- 1) (- 1) (- 1), Max3 = V3 1 1 1\<rparr> \<and>
   result_box (Transform_round_trip (Some unit_sphere) rot345)
     = Some \<lparr>Min3 = V3 (- (49 / 25)) (- (49 / 25)) (- 1), Max3 = V3 (49 / 25) (49 / 25) 1\<rparr> \<and>
   result_box (Transform_round_trip (Some unit_sphere) rot345) \<noteq> Some (BoundingBox unit_sphere)"
proof -
  have b: "result_box (Transform_round_trip (Some unit_sphere) rot345)
     = Some \<lparr>Min3 = V3 (- (49 / 25)) (- (49 / 25)) (- 1), Max3 = V3 (49 / 25) (49 / 25) 1\<rparr>"
    by (simp add: result_box_def Transform_round_trip_def Transform3D_def TransformSDF3_SDF3_def
        TransformSDF3_BoundingBox_def unit_sphere_BoundingBox MulBox_rot345 MulBox_rot345_back)
  have "\<lparr>Min3 = V3 (- (49 / 25)) (- (49 / 25)) (- 1), Max3 = V3 (49 / 25) (49 / 25) 1\<rparr>
          \<noteq> \<lparr>Min3 = V3 (- 1) (- 1) (- 1), Max3 = V3 1 1 1\<rparr>"
    by (simp add: V3_def)
  with b show ?thesis
    by (simp add: rot345_affine rot345_Determinant unit_sphere_BoundingBox)
qed

text \<open>
  Claim C5, amended. For every non-nil \<open>sdf\<close> and every affine matrix \<open>M\<close> with a non-zero
  determinant, \<^verbatim>\<open>Transform3D(sdf, M)\<close> followed by \<^verbatim>\<open>Transform3D\<close> with \<^verbatim>\<open>M.Inverse()\<close> builds
  a node that has, in exact arithmetic, the distance of \<open>sdf\<close> at every point; its bounding
  box contains the box of \<open>sdf\<close> whenever that box has its \<^verbatim>\<open>Min\<close> below its \<^verbatim>\<open>Max\<close>, and
  need not be equal to it.
\<close>

theorem transform_round_trip:
  assumes "affine M" and "Determinant M \<noteq> 0"
  shows "\<exists>t. Transform_round_trip (Some sdf) M = Inr (Some t) \<and>
           (\<forall>p. Evaluate t p = Evaluate sdf p) \<and>
           (well_formed (BoundingBox sdf) \<longrightarrow> box_within (BoundingBox sdf) (BoundingBox t))"
proof -
  let ?N = "Inverse M"
  have aN: "affine ?N" by (rule Inverse_affine [OF assms])
  have dN: "Determinant ?N \<noteq> 0"
    using assms(2) by (simp add: Determinant_Inverse [OF assms])
  have ev: "MulPosition ?N (MulPosition (Inverse ?N) p) = p" for p
    by (rule MulPosition_Inverse_right [OF aN dN])
  show ?thesis
    by (simp add: Transform_round_trip_def Transform3D_def TransformSDF3_SDF3_def
        TransformSDF3_Evaluate_def TransformSDF3_BoundingBox_def ev
        MulBox_round_trip_within [OF assms])
qed

text \<open>
  The unit sphere through \<^const>\<open>rot345\<close> and back, at the point \<open>(3, 4, 0)\<close>: the distance
  is \<open>5 - 1\<close>, and the box of the result contains \<open>[-1, 1]\<^sup>3\<close>.
\<close>

theorem transform_round_trip_witness:
  "affine rot345 \<and> Determinant rot345 \<noteq> 0 \<and> well_formed (BoundingBox unit_sphere) \<and>
   (\<exists>t. Transform_round_trip (Some unit_sphere) rot345 = Inr (Some t) \<and>
        Evaluate t (V3 3 4 0) = 4 \<and>
        box_within (BoundingBox unit_sphere) (BoundingBox t))"
proof -
  have a: "affine rot345" by (rule rot345_affine)
  have d: "Determinant rot345 \<noteq> 0" by (simp add: rot345_Determinant)
  have w: "well_formed (BoundingBox unit_sphere)"
    by (simp add: unit_sphere_BoundingBox well_formed_def V3_def)
  from transform_round_trip [OF a d, of unit_sphere] w obtain t where
    t: "Transform_round_trip (Some unit_sphere) rot345 = Inr (Some t)" and
    e: "\<forall>p. Evaluate t p = Evaluate unit_sphere p" and
    b: "box_within (BoundingBox unit_sphere) (BoundingBox t)"
    by blast
  from e have "Evaluate t (V3 3 4 0) = 4"
    by (simp add: unit_sphere_Evaluate r3_Norm_def V3_def sqrt_25)
  with a d w t b show ?thesis by blast
qed

end
